theory Spec2Isabelle
  imports Complex_Main
begin

section \<open>JavaScript numbers\<close>

text \<open>
  A JavaScript \<^verbatim>\<open>number\<close> is an IEEE 754 double: NaN, one of the two infinities, the
  negative zero, or a finite value, here a real; the positive zero is \<open>Fin 0\<close>. The
  finite values that occur are the representable ones, since every operation rounds
  its exact result.
\<close>

datatype jsnum = NaN | NInf | NZero | Fin real | PInf

text \<open>Rounding a non-negative real to the nearest integer, a tie to the even one.\<close>

definition round_even :: "real \<Rightarrow> int" where
  "round_even q =
     (let f = \<lfloor>q\<rfloor>; d = q - of_int f
      in if d < 1 / 2 then f else if 1 / 2 < d then f + 1 else if even f then f else f + 1)"

text \<open>
  The binary exponent of a positive real within the range of the doubles: the \<open>e\<close>
  with \<open>2 powi e \<le> a < 2 powi (e + 1)\<close>, but \<open>-1022\<close>, the exponent of the subnormal
  numbers, for every smaller \<open>a\<close>, and 1024 from \<open>2 powi 1024\<close> on. It is found by
  counting up from \<open>-1022\<close>, one step for every power of two that is not above \<open>a\<close>.
\<close>

fun exponent_from :: "nat \<Rightarrow> int \<Rightarrow> real \<Rightarrow> int" where
  "exponent_from 0 e a = e"
| "exponent_from (Suc n) e a =
     (if 2 powi (e + 1) \<le> a then exponent_from n (e + 1) a else e)"

definition binary_exponent :: "real \<Rightarrow> int" where
  "binary_exponent a = exponent_from 2046 (- 1022) a"

text \<open>
  The double nearest to a positive real: with \<open>e\<close> its binary exponent, the doubles
  around it are the multiples of \<open>2 powi (e - 52)\<close>.
\<close>

definition round_mag :: "real \<Rightarrow> real" where
  "round_mag a =
     (let e = binary_exponent a; u = 2 powi (e - 52)
      in of_int (round_even (a / u)) * u)"

text \<open>
  Rounding to nearest, ties to even, with overflow to an infinity from \<open>2 powi 1024\<close>
  on and underflow to a zero that keeps the sign.
\<close>

definition round_double :: "real \<Rightarrow> jsnum" where
  "round_double x =
     (if x = 0 then Fin 0
      else
        let r = round_mag \<bar>x\<bar>
        in if 2 powi 1024 \<le> r then (if 0 < x then PInf else NInf)
           else if r = 0 then (if 0 < x then Fin 0 else NZero)
           else Fin (if 0 < x then r else - r))"

text \<open>The value of a finite number, its sign, and the tests for infinities and zeros.\<close>

fun num_val :: "jsnum \<Rightarrow> real" where
  "num_val (Fin a) = a"
| "num_val _ = 0"

fun is_neg :: "jsnum \<Rightarrow> bool" where
  "is_neg NInf = True"
| "is_neg NZero = True"
| "is_neg (Fin a) = (a < 0)"
| "is_neg _ = False"

fun is_inf :: "jsnum \<Rightarrow> bool" where
  "is_inf NInf = True"
| "is_inf PInf = True"
| "is_inf _ = False"

fun is_zero :: "jsnum \<Rightarrow> bool" where
  "is_zero NZero = True"
| "is_zero (Fin a) = (a = 0)"
| "is_zero _ = False"

text \<open>Negation is exact; the negative of a zero is the other zero.\<close>

fun js_neg :: "jsnum \<Rightarrow> jsnum" where
  "js_neg NaN = NaN"
| "js_neg NInf = PInf"
| "js_neg PInf = NInf"
| "js_neg NZero = Fin 0"
| "js_neg (Fin a) = (if a = 0 then NZero else Fin (- a))"

text \<open>
  Addition rounds the exact sum. A sum that is exactly zero is the positive zero, and
  so is the sum of the two zeros; adding the negative zero changes nothing. Subtraction
  adds the negated number.
\<close>

fun js_add :: "jsnum \<Rightarrow> jsnum \<Rightarrow> jsnum" where
  "js_add (Fin a) (Fin b) = round_double (a + b)"
| "js_add NaN _ = NaN"
| "js_add _ NaN = NaN"
| "js_add PInf NInf = NaN"
| "js_add NInf PInf = NaN"
| "js_add PInf _ = PInf"
| "js_add _ PInf = PInf"
| "js_add NInf _ = NInf"
| "js_add _ NInf = NInf"
| "js_add NZero b = b"
| "js_add a NZero = a"

definition js_sub :: "jsnum \<Rightarrow> jsnum \<Rightarrow> jsnum" where
  "js_sub a b = js_add a (js_neg b)"

text \<open>
  Multiplication and division round the exact result; the sign of a zero or infinite
  result is the exclusive or of the operands' signs.
\<close>

definition js_mul :: "jsnum \<Rightarrow> jsnum \<Rightarrow> jsnum" where
  "js_mul a b =
     (if a = NaN \<or> b = NaN then NaN
      else if is_inf a \<or> is_inf b
      then (if is_zero a \<or> is_zero b then NaN
            else if is_neg a \<noteq> is_neg b then NInf else PInf)
      else if is_zero a \<or> is_zero b
      then (if is_neg a \<noteq> is_neg b then NZero else Fin 0)
      else round_double (num_val a * num_val b))"

definition js_div :: "jsnum \<Rightarrow> jsnum \<Rightarrow> jsnum" where
  "js_div a b =
     (if a = NaN \<or> b = NaN then NaN
      else if is_inf a
      then (if is_inf b then NaN else if is_neg a \<noteq> is_neg b then NInf else PInf)
      else if is_inf b
      then (if is_neg a \<noteq> is_neg b then NZero else Fin 0)
      else if is_zero b
      then (if is_zero a then NaN else if is_neg a \<noteq> is_neg b then NInf else PInf)
      else if is_zero a
      then (if is_neg a \<noteq> is_neg b then NZero else Fin 0)
      else round_double (num_val a / num_val b))"

text \<open>
  \<^verbatim>\<open>Math.min\<close> and \<^verbatim>\<open>Math.max\<close> of two arguments; the negative zero counts as
  smaller than the positive one.
\<close>

fun js_min :: "jsnum \<Rightarrow> jsnum \<Rightarrow> jsnum" where
  "js_min NaN _ = NaN"
| "js_min _ NaN = NaN"
| "js_min NInf _ = NInf"
| "js_min _ NInf = NInf"
| "js_min PInf b = b"
| "js_min a PInf = a"
| "js_min a b =
     (if num_val a < num_val b then a
      else if num_val b < num_val a then b
      else if a = NZero then a else b)"

fun js_max :: "jsnum \<Rightarrow> jsnum \<Rightarrow> jsnum" where
  "js_max NaN _ = NaN"
| "js_max _ NaN = NaN"
| "js_max PInf _ = PInf"
| "js_max _ PInf = PInf"
| "js_max NInf b = b"
| "js_max a NInf = a"
| "js_max a b =
     (if num_val a < num_val b then b
      else if num_val b < num_val a then a
      else if a = NZero then b else a)"

text \<open>
  Strict equality \<^verbatim>\<open>===\<close> and the comparison \<^verbatim>\<open><=\<close> on numbers; the two zeros
  are equal, and every comparison with NaN is false.
\<close>

fun js_eq :: "jsnum \<Rightarrow> jsnum \<Rightarrow> bool" where
  "js_eq NaN _ = False"
| "js_eq _ NaN = False"
| "js_eq PInf b = (b = PInf)"
| "js_eq NInf b = (b = NInf)"
| "js_eq a PInf = False"
| "js_eq a NInf = False"
| "js_eq a b = (num_val a = num_val b)"

fun js_le :: "jsnum \<Rightarrow> jsnum \<Rightarrow> bool" where
  "js_le NaN _ = False"
| "js_le _ NaN = False"
| "js_le NInf _ = True"
| "js_le _ PInf = True"
| "js_le PInf _ = False"
| "js_le _ NInf = False"
| "js_le a b = (num_val a \<le> num_val b)"

definition isNaN :: "jsnum \<Rightarrow> bool" where
  "isNaN n = (n = NaN)"



text \<open>
  The double that the literal \<^verbatim>\<open>0.1\<close> denotes, and the double nearest to
  \<open>1/50\<close>.
\<close>

definition tenth :: real where
  "tenth = 3602879701896397 / 36028797018963968"

definition fiftieth :: real where
  "fiftieth = 5764607523034235 / 288230376151711744"

section \<open>JavaScript strings\<close>

text \<open>
  A string is a sequence of UTF-16 code units. \<open>str\<close> gives the code units of a text
  of ASCII characters.
\<close>

type_synonym jsstring = "nat list"

definition str :: "string \<Rightarrow> jsstring" where
  "str s = map of_char s"

section \<open>Data model\<close>

text \<open>A point \<^verbatim>\<open>{x: number, z: number}\<close>.\<close>

record point =
  point_x :: jsnum
  point_z :: jsnum

text \<open>The rectangle \<^verbatim>\<open>{minX, minY, maxX, maxY}\<close> returned by \<^verbatim>\<open>calculateBounds\<close>.\<close>

record bounds =
  minX :: jsnum
  minY :: jsnum
  maxX :: jsnum
  maxY :: jsnum

text \<open>The view box \<^verbatim>\<open>{minX, minY, width, height}\<close> kept in the component state.\<close>

record viewbox =
  vb_minX :: jsnum
  vb_minY :: jsnum
  width :: jsnum
  height :: jsnum

text \<open>A pair \<^verbatim>\<open>{x, y}\<close>: the pan offset, and the drag anchor in screen pixels.\<close>

record offset =
  off_x :: jsnum
  off_y :: jsnum

section \<open>Bounds of the geometry\<close>

text \<open>
  The body of the inner \<^verbatim>\<open>forEach\<close> of \<^verbatim>\<open>calculateBounds\<close>, which is also
  what the function does with the custom point: z is mapped to Y directly.
\<close>

definition includePoint :: "point \<Rightarrow> bounds \<Rightarrow> bounds" where
  "includePoint p b =
     \<lparr>minX = js_min (minX b) (point_x p),
      minY = js_min (minY b) (point_z p),
      maxX = js_max (maxX b) (point_x p),
      maxY = js_max (maxY b) (point_z p)\<rparr>"

definition calculateBounds :: "point list list \<Rightarrow> point option \<Rightarrow> bounds" where
  "calculateBounds polygons customPoint =
     (if polygons = [] \<and> customPoint = None
      then \<lparr>minX = Fin 0, minY = Fin 0, maxX = Fin 100, maxY = Fin 100\<rparr>
      else
        let b0 = \<lparr>minX = PInf, minY = PInf, maxX = NInf, maxY = NInf\<rparr>;
            b1 = fold (\<lambda>polygon b. fold includePoint polygon b) polygons b0;
            b2 = (case customPoint of None \<Rightarrow> b1 | Some p \<Rightarrow> includePoint p b1);
            b3 = (if js_eq (minX b2) (maxX b2) \<and> js_eq (minY b2) (maxY b2)
                  then \<lparr>minX = js_sub (minX b2) (Fin 5),
                        minY = js_sub (minY b2) (Fin 5),
                        maxX = js_add (maxX b2) (Fin 5),
                        maxY = js_add (maxY b2) (Fin 5)\<rparr>
                  else b2);
            padding = js_mul (js_max (js_sub (maxX b3) (minX b3)) (js_sub (maxY b3) (minY b3)))
                        (round_double (1 / 10))
        in \<lparr>minX = js_sub (minX b3) padding,
            minY = js_sub (minY b3) padding,
            maxX = js_add (maxX b3) padding,
            maxY = js_add (maxY b3) padding\<rparr>)"

text \<open>
  Every point the function looks at: the points of all polygons in order, then the
  custom point when there is one.
\<close>

definition allPoints :: "point list list \<Rightarrow> point option \<Rightarrow> point list" where
  "allPoints polygons customPoint =
     concat polygons @ (case customPoint of None \<Rightarrow> [] | Some p \<Rightarrow> [p])"

section \<open>Values returned by JSON.parse\<close>

text \<open>
  \<^verbatim>\<open>JSON.parse\<close> returns null, a boolean, a number, a string, an array or a plain
  object whose own properties are the members of the JSON object.
\<close>

datatype jsval =
    JNull
  | JBool bool
  | JNum jsnum
  | JStr jsstring
  | JArr "jsval list"
  | JObj "(jsstring \<times> jsval) list"


text \<open>
  A thrown error object: its class and its \<^verbatim>\<open>message\<close>. The wording of the messages
  the engine itself produces (for a SyntaxError of \<^verbatim>\<open>JSON.parse\<close>, for a TypeError)
  is not fixed by the language; the TypeError texts below are representative.
\<close>

datatype js_error = Error jsstring | SyntaxError jsstring | TypeError jsstring

fun message :: "js_error \<Rightarrow> jsstring" where
  "message (Error m) = m"
| "message (SyntaxError m) = m"
| "message (TypeError m) = m"

text \<open>The decimal text of an index, as a template literal \<^verbatim>\<open>${i}\<close> prints it.\<close>

fun show_nat :: "nat \<Rightarrow> jsstring" where
  "show_nat n = (if n < 10 then [48 + n] else show_nat (n div 10) @ [48 + n mod 10])"

declare show_nat.simps [simp del]

text \<open>
  \<^verbatim>\<open>point.hasOwnProperty(k)\<close>. Reading a property of null throws a TypeError. On an
  object the method is found on the prototype unless the object has an own property of
  that name, which then is no function. A string and an array own their indices
  and \<^verbatim>\<open>length\<close>; a boolean and a number own nothing.
\<close>

fun hasOwnProperty :: "jsval \<Rightarrow> jsstring \<Rightarrow> js_error + bool" where
  "hasOwnProperty JNull k = Inl (TypeError (str ''Cannot read properties of null''))"
| "hasOwnProperty (JObj kvs) k =
     (case map_of kvs (str ''hasOwnProperty'') of
        Some v \<Rightarrow> Inl (TypeError (str ''point.hasOwnProperty is not a function''))
      | None \<Rightarrow> Inr (map_of kvs k \<noteq> None))"
| "hasOwnProperty (JStr s) k =
     Inr (k = str ''length'' \<or> k \<in> set (map show_nat [0..<length s]))"
| "hasOwnProperty (JArr vs) k =
     Inr (k = str ''length'' \<or> k \<in> set (map show_nat [0..<length vs]))"
| "hasOwnProperty (JBool b) k = Inr False"
| "hasOwnProperty (JNum n) k = Inr False"

text \<open>Reading an own property \<^verbatim>\<open>point.x\<close>; \<open>None\<close> stands for \<^verbatim>\<open>undefined\<close>.\<close>

fun getProp :: "jsval \<Rightarrow> jsstring \<Rightarrow> jsval option" where
  "getProp (JObj kvs) k = map_of kvs k"
| "getProp _ k = None"

section \<open>Parsing and validation\<close>

text \<open>The two messages of the field checks, for point \<open>j\<close> of polygon \<open>i\<close>.\<close>

definition missing_msg :: "nat \<Rightarrow> nat \<Rightarrow> jsstring" where
  "missing_msg i j =
     str ''Point '' @ show_nat j @ str '' in polygon '' @ show_nat i @
     str '' must have x and z properties''"

definition numeric_msg :: "nat \<Rightarrow> nat \<Rightarrow> jsstring" where
  "numeric_msg i j =
     str ''Point '' @ show_nat j @ str '' in polygon '' @ show_nat i @
     str '' must have numeric x and z values''"

text \<open>
  The callback of the inner \<^verbatim>\<open>forEach\<close> of \<^verbatim>\<open>parsePolygons\<close>, for point \<open>j\<close> of
  polygon \<open>i\<close>. A point that passes is read as its \<^verbatim>\<open>x\<close> and \<^verbatim>\<open>z\<close>, the only
  properties the component uses.
\<close>

definition validatePoint :: "nat \<Rightarrow> nat \<Rightarrow> jsval \<Rightarrow> js_error + point" where
  "validatePoint i j point =
     (case hasOwnProperty point (str ''x'') of
        Inl e \<Rightarrow> Inl e
      | Inr hx \<Rightarrow>
          if \<not> hx then Inl (Error (missing_msg i j))
          else
            (case hasOwnProperty point (str ''z'') of
               Inl e \<Rightarrow> Inl e
             | Inr hz \<Rightarrow>
                 if \<not> hz then Inl (Error (missing_msg i j))
                 else
                   (case (getProp point (str ''x''), getProp point (str ''z'')) of
                      (Some (JNum a), Some (JNum b)) \<Rightarrow> Inr \<lparr>point_x = a, point_z = b\<rparr>
                    | _ \<Rightarrow> Inl (Error (numeric_msg i j)))))"

text \<open>The inner \<^verbatim>\<open>forEach\<close>: it stops at the first point that throws.\<close>

fun validatePoints :: "nat \<Rightarrow> nat \<Rightarrow> jsval list \<Rightarrow> js_error + point list" where
  "validatePoints i j [] = Inr []"
| "validatePoints i j (point # rest) =
     (case validatePoint i j point of
        Inl e \<Rightarrow> Inl e
      | Inr p \<Rightarrow>
          (case validatePoints i (Suc j) rest of
             Inl e \<Rightarrow> Inl e
           | Inr ps \<Rightarrow> Inr (p # ps)))"

text \<open>The outer \<^verbatim>\<open>forEach\<close> over the polygons, from index \<open>i\<close>.\<close>

fun validatePolygons :: "nat \<Rightarrow> jsval list \<Rightarrow> js_error + point list list" where
  "validatePolygons i [] = Inr []"
| "validatePolygons i (polygon # rest) =
     (case polygon of
        JArr points \<Rightarrow>
          (case validatePoints i 0 points of
             Inl e \<Rightarrow> Inl e
           | Inr ps \<Rightarrow>
               (case validatePolygons (Suc i) rest of
                  Inl e \<Rightarrow> Inl e
                | Inr pss \<Rightarrow> Inr (ps # pss)))
      | _ \<Rightarrow> Inl (Error (str ''Polygon '' @ show_nat i @ str '' must be an array'')))"

text \<open>
  The \<^verbatim>\<open>try\<close> block of \<^verbatim>\<open>parsePolygons\<close>. \<^verbatim>\<open>JSON.parse\<close> belongs to the
  platform and is a parameter: \<open>Inl m\<close> is a SyntaxError with message \<open>m\<close>, \<open>Inr v\<close>
  the parsed value.
\<close>

definition parsePolygons_try ::
  "(jsstring \<Rightarrow> jsstring + jsval) \<Rightarrow> jsstring \<Rightarrow> js_error + point list list" where
  "parsePolygons_try JSON_parse text =
     (case JSON_parse text of
        Inl m \<Rightarrow> Inl (SyntaxError m)
      | Inr parsed \<Rightarrow>
          (case parsed of
             JArr polygons \<Rightarrow> validatePolygons 0 polygons
           | _ \<Rightarrow> Inl (Error (str ''Input must be an array''))))"

text \<open>\<^verbatim>\<open>parsePolygons\<close>: whatever the block throws is caught and thrown again, wrapped.\<close>

definition parsePolygons ::
  "(jsstring \<Rightarrow> jsstring + jsval) \<Rightarrow> jsstring \<Rightarrow> js_error + point list list" where
  "parsePolygons JSON_parse text =
     (case parsePolygons_try JSON_parse text of
        Inl err \<Rightarrow> Inl (Error (str ''Invalid JSON format: '' @ message err))
      | Inr parsed \<Rightarrow> Inr parsed)"

text \<open>
  The inputs that the checks tell apart. \<^verbatim>\<open>Array.isArray\<close> and
  \<^verbatim>\<open>typeof \<dots> === 'number'\<close>; a point on which \<^verbatim>\<open>hasOwnProperty\<close> answers no
  for \<^verbatim>\<open>x\<close> or for \<^verbatim>\<open>z\<close>; a point that owns both, one of them not a number; a
  point that owns both as numbers; and a polygon that is an array of such points.
\<close>

definition is_array :: "jsval \<Rightarrow> bool" where
  "is_array v = (case v of JArr vs \<Rightarrow> True | _ \<Rightarrow> False)"

definition is_number :: "jsval option \<Rightarrow> bool" where
  "is_number v = (case v of Some (JNum n) \<Rightarrow> True | _ \<Rightarrow> False)"

definition lacks_field :: "jsval \<Rightarrow> bool" where
  "lacks_field point =
     (hasOwnProperty point (str ''x'') = Inr False \<or>
      hasOwnProperty point (str ''z'') = Inr False)"

definition non_numeric_field :: "jsval \<Rightarrow> bool" where
  "non_numeric_field point =
     (hasOwnProperty point (str ''x'') = Inr True \<and>
      hasOwnProperty point (str ''z'') = Inr True \<and>
      \<not> (is_number (getProp point (str ''x'')) \<and> is_number (getProp point (str ''z''))))"

definition valid_point :: "jsval \<Rightarrow> bool" where
  "valid_point point =
     (hasOwnProperty point (str ''x'') = Inr True \<and>
      hasOwnProperty point (str ''z'') = Inr True \<and>
      is_number (getProp point (str ''x'')) \<and> is_number (getProp point (str ''z'')))"

definition valid_polygon :: "jsval \<Rightarrow> bool" where
  "valid_polygon v = (case v of JArr points \<Rightarrow> list_all valid_point points | _ \<Rightarrow> False)"

text \<open>The prefix that \<^verbatim>\<open>parsePolygons\<close> puts in front of every message.\<close>

definition format_prefix :: jsstring where
  "format_prefix = str ''Invalid JSON format: ''"

section \<open>Strings of the coordinate fields\<close>

text \<open>
  The code units that \<^verbatim>\<open>trim\<close> and \<^verbatim>\<open>parseFloat\<close> skip: the white space and the
  line terminators of the language, that is tab, line feed, vertical tab, form feed,
  carriage return, space, no-break space, the other space separators of Unicode, the
  line and paragraph separators, and the byte order mark.
\<close>

definition is_ws :: "nat \<Rightarrow> bool" where
  "is_ws c =
     (c \<in> set [0x0009, 0x000A, 0x000B, 0x000C, 0x000D, 0x0020, 0x00A0, 0x1680,
               0x2028, 0x2029, 0x202F, 0x205F, 0x3000, 0xFEFF]
      \<or> (0x2000 \<le> c \<and> c \<le> 0x200A))"

definition trim :: "jsstring \<Rightarrow> jsstring" where
  "trim s = rev (dropWhile is_ws (rev (dropWhile is_ws s)))"

definition is_digit :: "nat \<Rightarrow> bool" where
  "is_digit c = (48 \<le> c \<and> c \<le> 57)"

text \<open>The value of a run of decimal digits.\<close>

definition digits_val :: "jsstring \<Rightarrow> nat" where
  "digits_val ds = foldl (\<lambda>n c. 10 * n + (c - 48)) 0 ds"

text \<open>An optional sign, \<^verbatim>\<open>-\<close> or \<^verbatim>\<open>+\<close>, in front of the rest of a string.\<close>

fun take_sign :: "jsstring \<Rightarrow> bool \<times> jsstring" where
  "take_sign [] = (False, [])"
| "take_sign (c # r) =
     (if c = 45 then (True, r) else if c = 43 then (False, r) else (False, c # r))"

text \<open>
  The value of an exponent part \<^verbatim>\<open>e\<close> or \<^verbatim>\<open>E\<close>, sign, digits at the head of a
  string; 0 when the string does not start with a complete one.
\<close>

fun exponent_val :: "jsstring \<Rightarrow> int" where
  "exponent_val [] = 0"
| "exponent_val (c # r) =
     (if c = 101 \<or> c = 69
      then (let (neg, r') = take_sign r; ds = takeWhile is_digit r'
            in if ds = [] then 0
               else if neg then - int (digits_val ds) else int (digits_val ds))
      else 0)"

text \<open>
  \<^verbatim>\<open>parseFloat\<close> as the language defines it: leading white space is skipped, the
  longest prefix that is a decimal literal (or a signed \<^verbatim>\<open>Infinity\<close>) is read, and
  what follows is ignored; NaN when there is no such prefix. The result is the double
  nearest to the mathematical value of the literal, as the engines compute it.
\<close>

definition parseFloat :: "jsstring \<Rightarrow> jsnum" where
  "parseFloat inputString =
     (let (neg, s1) = take_sign (dropWhile is_ws inputString)
      in if take 8 s1 = str ''Infinity'' then (if neg then NInf else PInf)
         else
           let ip = takeWhile is_digit s1;
               r1 = dropWhile is_digit s1;
               (fp, r2) = (case r1 of
                             [] \<Rightarrow> ([], [])
                           | c # r \<Rightarrow>
                               if c = 46
                               then (takeWhile is_digit r, dropWhile is_digit r)
                               else ([], r1))
           in if ip = [] \<and> fp = [] then NaN
              else
                let mant = real (digits_val ip) + real (digits_val fp) / 10 ^ length fp;
                    ex = exponent_val r2;
                    v = (if 0 \<le> ex then mant * 10 ^ nat ex else mant / 10 ^ nat (- ex))
                in if neg then js_neg (round_double v) else round_double v)"

section \<open>Component state and handlers\<close>

record tooltip =
  visible :: bool
  tip_x :: jsnum
  tip_y :: jsnum
  content :: jsstring

text \<open>The \<^verbatim>\<open>useState\<close> cells of \<^verbatim>\<open>PolygonVisualizer\<close>.\<close>

record state =
  polygons :: "point list list"
  inputText :: jsstring
  error :: jsstring
  xCoordinate :: jsstring
  zCoordinate :: jsstring
  customPoint :: "point option"
  viewBox :: viewbox
  zoom :: jsnum
  tooltip :: tooltip
  isDragging :: bool
  dragStart :: "offset option"
  panOffset :: offset

definition initialState :: state where
  "initialState =
     \<lparr>polygons = [], inputText = [], error = [], xCoordinate = [], zCoordinate = [],
      customPoint = None,
      viewBox = \<lparr>vb_minX = Fin 0, vb_minY = Fin 0, width = Fin 100, height = Fin 100\<rparr>,
      zoom = Fin 1,
      tooltip = \<lparr>visible = False, tip_x = Fin 0, tip_y = Fin 0, content = []\<rparr>,
      isDragging = False, dragStart = None,
      panOffset = \<lparr>off_x = Fin 0, off_y = Fin 0\<rparr>\<rparr>"

definition updateViewBox :: "point list list \<Rightarrow> point option \<Rightarrow> state \<Rightarrow> state" where
  "updateViewBox polys cp s =
     (let bounds = calculateBounds polys cp;
          w = js_sub (maxX bounds) (minX bounds);
          h = js_sub (maxY bounds) (minY bounds)
      in s\<lparr>viewBox := \<lparr>vb_minX = minX bounds, vb_minY = minY bounds, width = w, height = h\<rparr>,
           panOffset := \<lparr>off_x = Fin 0, off_y = Fin 0\<rparr>\<rparr>)"

definition handleInputChange ::
  "(jsstring \<Rightarrow> jsstring + jsval) \<Rightarrow> jsstring \<Rightarrow> state \<Rightarrow> state" where
  "handleInputChange JSON_parse text s =
     (let s1 = s\<lparr>inputText := text, error := []\<rparr>
      in if trim text = []
         then updateViewBox [] (customPoint s) (s1\<lparr>polygons := []\<rparr>)
         else
           (case parsePolygons JSON_parse text of
              Inr parsed \<Rightarrow> updateViewBox parsed (customPoint s) (s1\<lparr>polygons := parsed\<rparr>)
            | Inl err \<Rightarrow> s1\<lparr>error := message err, polygons := []\<rparr>))"

definition handleCoordinateChange :: "jsstring \<Rightarrow> jsstring \<Rightarrow> state \<Rightarrow> state" where
  "handleCoordinateChange x z s =
     (let s1 = s\<lparr>xCoordinate := x, zCoordinate := z\<rparr>;
          xNum = parseFloat x;
          zNum = parseFloat z
      in if trim x = [] \<or> trim z = [] \<or> isNaN xNum \<or> isNaN zNum
         then updateViewBox (polygons s) None (s1\<lparr>customPoint := None\<rparr>)
         else
           let newPoint = \<lparr>point_x = xNum, point_z = zNum\<rparr>
           in updateViewBox (polygons s) (Some newPoint) (s1\<lparr>customPoint := Some newPoint\<rparr>))"

definition handleZoomIn :: "state \<Rightarrow> state" where
  "handleZoomIn s = s\<lparr>zoom := js_min (js_mul (zoom s) (Fin (3 / 2))) (Fin 10)\<rparr>"

definition handleZoomOut :: "state \<Rightarrow> state" where
  "handleZoomOut s =
     s\<lparr>zoom := js_max (js_div (zoom s) (Fin (3 / 2))) (round_double (1 / 10))\<rparr>"

definition handleReset :: "state \<Rightarrow> state" where
  "handleReset s =
     updateViewBox (polygons s) (customPoint s)
       (s\<lparr>zoom := Fin 1, panOffset := \<lparr>off_x = Fin 0, off_y = Fin 0\<rparr>\<rparr>)"

text \<open>The three zoom commands of the toolbar, and a run of them.\<close>

datatype zoom_command = ZoomIn | ZoomOut | Reset

fun zoom_step :: "zoom_command \<Rightarrow> state \<Rightarrow> state" where
  "zoom_step ZoomIn s = handleZoomIn s"
| "zoom_step ZoomOut s = handleZoomOut s"
| "zoom_step Reset s = handleReset s"

text \<open>
  The mouse handlers take from the event its button and its client position, and from
  \<^verbatim>\<open>svgRef.current\<close> the size of its bounding rectangle (\<open>None\<close> when the ref is
  null).
\<close>

record domrect =
  rect_width :: jsnum
  rect_height :: jsnum

definition handleMouseDown :: "int \<Rightarrow> jsnum \<Rightarrow> jsnum \<Rightarrow> state \<Rightarrow> state" where
  "handleMouseDown button clientX clientY s =
     (if button \<noteq> 0 then s
      else s\<lparr>isDragging := True,
             dragStart := Some \<lparr>off_x = clientX, off_y = clientY\<rparr>,
             tooltip := (tooltip s)\<lparr>visible := False\<rparr>\<rparr>)"

definition handleMouseMove :: "domrect option \<Rightarrow> jsnum \<Rightarrow> jsnum \<Rightarrow> state \<Rightarrow> state" where
  "handleMouseMove svgRect clientX clientY s =
     (case (isDragging s, dragStart s, svgRect) of
        (True, Some start, Some rect) \<Rightarrow>
          let deltaX = js_sub clientX (off_x start);
              deltaY = js_sub clientY (off_y start);
              scaleX = js_div (js_div (width (viewBox s)) (zoom s)) (rect_width rect);
              scaleY = js_div (js_div (height (viewBox s)) (zoom s)) (rect_height rect);
              newPanOffset =
                \<lparr>off_x = js_sub (off_x (panOffset s)) (js_mul deltaX scaleX),
                 off_y = js_sub (off_y (panOffset s)) (js_mul deltaY scaleY)\<rparr>
          in s\<lparr>panOffset := newPanOffset,
               dragStart := Some \<lparr>off_x = clientX, off_y = clientY\<rparr>\<rparr>
      | _ \<Rightarrow> s)"

definition handleMouseUp :: "state \<Rightarrow> state" where
  "handleMouseUp s = s\<lparr>isDragging := False, dragStart := None\<rparr>"

text \<open>The rectangle given to the \<^verbatim>\<open>svg\<close> element: the view box, panned and zoomed.\<close>

definition currentViewBox :: "state \<Rightarrow> viewbox" where
  "currentViewBox s =
     \<lparr>vb_minX = js_add (vb_minX (viewBox s)) (off_x (panOffset s)),
      vb_minY = js_add (vb_minY (viewBox s)) (off_y (panOffset s)),
      width = js_div (width (viewBox s)) (zoom s),
      height = js_div (height (viewBox s)) (zoom s)\<rparr>"

text \<open>
  One axis of a drag from the anchor \<open>a0\<close> over the pointer position \<open>x1\<close> to
  \<open>x2\<close>, with the pan offset \<open>p\<close> and the scale factor \<open>s\<close>: no difference and no
  product that the two moves, or the single move, compute is rounded.
\<close>

definition drag_exact :: "real \<Rightarrow> real \<Rightarrow> real \<Rightarrow> real \<Rightarrow> real \<Rightarrow> bool" where
  "drag_exact a0 x1 x2 p s =
     (js_sub (Fin x1) (Fin a0) = Fin (x1 - a0) \<and>
      js_sub (Fin x2) (Fin x1) = Fin (x2 - x1) \<and>
      js_sub (Fin x2) (Fin a0) = Fin (x2 - a0) \<and>
      js_mul (Fin (x1 - a0)) (Fin s) = Fin ((x1 - a0) * s) \<and>
      js_mul (Fin (x2 - x1)) (Fin s) = Fin ((x2 - x1) * s) \<and>
      js_mul (Fin (x2 - a0)) (Fin s) = Fin ((x2 - a0) * s) \<and>
      js_sub (Fin p) (Fin ((x1 - a0) * s)) = Fin (p - (x1 - a0) * s) \<and>
      js_sub (Fin (p - (x1 - a0) * s)) (Fin ((x2 - x1) * s)) =
        Fin (p - (x1 - a0) * s - (x2 - x1) * s) \<and>
      js_sub (Fin p) (Fin ((x2 - a0) * s)) = Fin (p - (x2 - a0) * s))"

section \<open>Example inputs\<close>

text \<open>
  Texts for the examples below, and \<^verbatim>\<open>JSON.parse\<close> on them: a text with one polygon
  of two points; one whose \<^verbatim>\<open>x\<close> overflows to \<^verbatim>\<open>Infinity\<close>; one with the single
  point \<open>(1e17, 1e17)\<close>; one with a polygon of no points; the text \<^verbatim>\<open>[[1]]\<close>; and on
  any other text, of which only \<^verbatim>\<open>not json\<close> is used, a SyntaxError.
\<close>

definition twoPointsText :: jsstring where
  \<open>twoPointsText = str ''[[{"x":0,"z":0},{"x":10,"z":10}]]''\<close>

definition twoPointsValue :: jsval where
  "twoPointsValue =
     JArr [JArr [JObj [(str ''x'', JNum (Fin 0)), (str ''z'', JNum (Fin 0))],
                 JObj [(str ''x'', JNum (Fin 10)), (str ''z'', JNum (Fin 10))]]]"

definition overflowText :: jsstring where
  \<open>overflowText = str ''[[{"x":1e999,"z":0}]]''\<close>

definition bigPointText :: jsstring where
  \<open>bigPointText = str ''[[{"x":1e17,"z":1e17}]]''\<close>

definition example_JSON_parse :: "jsstring \<Rightarrow> jsstring + jsval" where
  "example_JSON_parse text =
     (if text = twoPointsText then Inr twoPointsValue
      else if text = overflowText
      then Inr (JArr [JArr [JObj [(str ''x'', JNum PInf), (str ''z'', JNum (Fin 0))]]])
      else if text = bigPointText
      then Inr (JArr [JArr [JObj [(str ''x'', JNum (Fin (10 ^ 17))),
                                  (str ''z'', JNum (Fin (10 ^ 17)))]]])
      else if text = str ''[[]]'' then Inr (JArr [JArr []])
      else if text = str ''[[1]]'' then Inr (JArr [JArr [JNum (Fin 1)]])
      else Inl (str ''Unexpected token o in JSON at position 1''))"

section \<open>Rounding: auxiliary facts\<close>

lemma round_even_of_int [simp]: "round_even (of_int n) = n"
  by (simp add: round_even_def)

lemma round_even_bounds: "of_int (round_even q) \<le> q + 1 / 2" "q - 1 / 2 \<le> of_int (round_even q)"
  by (auto simp: round_even_def Let_def) linarith+

lemma round_even_floor: "\<lfloor>q\<rfloor> \<le> round_even q" "round_even q \<le> \<lfloor>q\<rfloor> + 1"
  by (auto simp: round_even_def Let_def)

lemma round_even_mono:
  assumes "q \<le> q'"
  shows "round_even q \<le> round_even q'"
proof (cases "\<lfloor>q\<rfloor> = \<lfloor>q'\<rfloor>")
  case True
  with assms show ?thesis by (auto simp: round_even_def Let_def)
next
  case False
  with assms have "\<lfloor>q\<rfloor> < \<lfloor>q'\<rfloor>" by (simp add: floor_mono order.not_eq_order_implies_strict)
  then have "round_even q \<le> \<lfloor>q'\<rfloor>" using round_even_floor(2)[of q] by linarith
  then show ?thesis using round_even_floor(1)[of q'] by linarith
qed

lemma pow2_pos [simp]: "0 < (2::real) powi k"
  by simp

lemma pow2_mono: "k \<le> l \<Longrightarrow> (2::real) powi k \<le> 2 powi l"
  by (rule power_int_increasing) simp_all

lemma pow2_add: "(2::real) powi (k + l) = 2 powi k * 2 powi l"
  by (rule power_int_add) simp

lemma pow2_diff: "(2::real) powi (k - l) = 2 powi k / 2 powi l"
  by (rule power_int_diff) simp

text \<open>The binary exponent: its range, the two bounds it gives, and monotonicity.\<close>

lemma exponent_from_range: "e \<le> exponent_from n e a \<and> exponent_from n e a \<le> e + int n"
proof (induction n arbitrary: e)
  case 0
  show ?case by simp
next
  case (Suc n)
  from Suc[of "e + 1"] show ?case by auto
qed

lemma exponent_from_lower:
  "e < exponent_from n e a \<Longrightarrow> 2 powi (exponent_from n e a) \<le> a"
proof (induction n arbitrary: e)
  case 0
  then show ?case by simp
next
  case (Suc n)
  show ?case
  proof (cases "2 powi (e + 1) \<le> a")
    case True
    then have r: "exponent_from (Suc n) e a = exponent_from n (e + 1) a" by simp
    show ?thesis
    proof (cases "e + 1 < exponent_from n (e + 1) a")
      case True
      from Suc.IH[OF this] r show ?thesis by simp
    next
      case False
      with exponent_from_range[of "e + 1" n a] have "exponent_from n (e + 1) a = e + 1" by simp
      with \<open>2 powi (e + 1) \<le> a\<close> r show ?thesis by simp
    qed
  next
    case False
    with Suc.prems show ?thesis by simp
  qed
qed

lemma exponent_from_upper:
  "exponent_from n e a < e + int n \<Longrightarrow> a < 2 powi (exponent_from n e a + 1)"
proof (induction n arbitrary: e)
  case 0
  then show ?case by simp
next
  case (Suc n)
  show ?case
  proof (cases "2 powi (e + 1) \<le> a")
    case True
    then have r: "exponent_from (Suc n) e a = exponent_from n (e + 1) a" by simp
    with Suc.prems have "exponent_from n (e + 1) a < e + 1 + int n" by simp
    from Suc.IH[OF this] r show ?thesis by simp
  next
    case False
    then show ?thesis by simp
  qed
qed

lemma exponent_from_mono:
  "a \<le> b \<Longrightarrow> exponent_from n e a \<le> exponent_from n e b"
proof (induction n arbitrary: e)
  case 0
  show ?case by simp
next
  case (Suc n)
  show ?case
  proof (cases "2 powi (e + 1) \<le> a")
    case True
    with Suc.prems have "2 powi (e + 1) \<le> b" by simp
    with True Suc.IH[OF Suc.prems, of "e + 1"] show ?thesis by simp
  next
    case False
    with exponent_from_range[of e "Suc n" b] show ?thesis by simp
  qed
qed

lemma binary_exponent_range: "- 1022 \<le> binary_exponent a" "binary_exponent a \<le> 1024"
  using exponent_from_range[of "- 1022" 2046 a] by (simp_all add: binary_exponent_def)

lemma binary_exponent_lower: "- 1022 < binary_exponent a \<Longrightarrow> 2 powi binary_exponent a \<le> a"
  unfolding binary_exponent_def by (rule exponent_from_lower)

lemma binary_exponent_upper: "binary_exponent a < 1024 \<Longrightarrow> a < 2 powi (binary_exponent a + 1)"
  unfolding binary_exponent_def by (rule exponent_from_upper) simp

lemma binary_exponent_mono: "a \<le> b \<Longrightarrow> binary_exponent a \<le> binary_exponent b"
  unfolding binary_exponent_def by (rule exponent_from_mono)

lemma binary_exponent_eq:
  assumes "2 powi e \<le> a \<or> e = - 1022" "a < 2 powi (e + 1) \<or> e = 1024"
    and "- 1022 \<le> e" "e \<le> 1024"
  shows "binary_exponent a = e"
proof (rule antisym)
  show "binary_exponent a \<le> e"
  proof (rule ccontr)
    assume "\<not> binary_exponent a \<le> e"
    then have lt: "e < binary_exponent a" by simp
    with assms(3) have "2 powi binary_exponent a \<le> a" by (intro binary_exponent_lower) simp
    moreover from lt binary_exponent_range(2)[of a] assms(2) have "a < 2 powi (e + 1)" by auto
    moreover from lt have "(2::real) powi (e + 1) \<le> 2 powi binary_exponent a"
      by (intro pow2_mono) simp
    ultimately show False by linarith
  qed
  show "e \<le> binary_exponent a"
  proof (rule ccontr)
    assume "\<not> e \<le> binary_exponent a"
    then have lt: "binary_exponent a < e" by simp
    with assms(4) have "a < 2 powi (binary_exponent a + 1)" by (intro binary_exponent_upper) simp
    moreover from lt binary_exponent_range(1)[of a] assms(1) have "2 powi e \<le> a" by auto
    moreover from lt have "(2::real) powi (binary_exponent a + 1) \<le> 2 powi e"
      by (intro pow2_mono) simp
    ultimately show False by linarith
  qed
qed

text \<open>Within the range of the normal doubles it is the integer part of the binary logarithm.\<close>

lemma binary_exponent_log:
  assumes "2 powi (- 1022) \<le> a" "a < 2 powi 1024"
  shows "binary_exponent a = \<lfloor>log 2 a\<rfloor>"
proof -
  have pos: "0 < a" using assms(1) pow2_pos[of "- 1022"] by linarith
  have "(2::real) powr (of_int \<lfloor>log 2 a\<rfloor>) \<le> a \<and> a < 2 powr (of_int \<lfloor>log 2 a\<rfloor> + 1)"
    using floor_log_eq_powr_iff[of a 2 "\<lfloor>log 2 a\<rfloor>"] pos by simp
  moreover have "(2::real) powr (of_int \<lfloor>log 2 a\<rfloor>) = 2 powi \<lfloor>log 2 a\<rfloor>"
    by (simp add: powr_real_of_int')
  moreover have "(2::real) powr (of_int \<lfloor>log 2 a\<rfloor> + 1) = 2 powi (\<lfloor>log 2 a\<rfloor> + 1)"
    using powr_real_of_int'[of 2 "\<lfloor>log 2 a\<rfloor> + 1"] by simp
  ultimately have b: "2 powi \<lfloor>log 2 a\<rfloor> \<le> a" "a < 2 powi (\<lfloor>log 2 a\<rfloor> + 1)" by simp_all
  from b(2) assms(1) have "(2::real) powi (- 1022) < 2 powi (\<lfloor>log 2 a\<rfloor> + 1)" by linarith
  then have lo: "- 1022 \<le> \<lfloor>log 2 a\<rfloor>"
    by (metis not_le pow2_mono zle_add1_eq_le order.strict_iff_not add.commute)
  from b(1) assms(2) have "(2::real) powi \<lfloor>log 2 a\<rfloor> < 2 powi 1024" by linarith
  then have hi: "\<lfloor>log 2 a\<rfloor> \<le> 1024"
    by (metis not_le pow2_mono order.strict_implies_order linorder_le_cases)
  from b lo hi show ?thesis by (intro binary_exponent_eq) simp_all
qed

lemma round_even_nonneg: "0 \<le> q \<Longrightarrow> 0 \<le> round_even q"
  using round_even_mono[of 0 q] round_even_of_int[of 0] by simp

lemma round_mag_nonneg: "0 < a \<Longrightarrow> 0 \<le> round_mag a"
  by (simp add: round_mag_def Let_def round_even_nonneg)

lemma round_mag_eval:
  assumes "0 < a" "2 powi e \<le> a" "a < 2 powi (e + 1)" "- 1022 \<le> e" "e \<le> 1024"
  shows "round_mag a = of_int (round_even (a / 2 powi (e - 52))) * 2 powi (e - 52)"
proof -
  from assms(2-5) have "binary_exponent a = e" by (intro binary_exponent_eq) simp_all
  then show ?thesis by (simp add: round_mag_def Let_def)
qed

lemma round_mag_eval_subnormal:
  assumes "0 < a" "a < 2 powi (- 1022)"
  shows "round_mag a = of_int (round_even (a / 2 powi (- 1074))) * 2 powi (- 1074)"
proof -
  have "(2::real) powi (- 1022) \<le> 2 powi (- 1022 + 1)" by (intro pow2_mono) simp
  with assms(2) have "a < 2 powi (- 1022 + 1)" by linarith
  then have "binary_exponent a = - 1022" by (intro binary_exponent_eq) simp_all
  then show ?thesis by (simp add: round_mag_def Let_def)
qed

lemma round_mag_mono:
  assumes "0 < a" "a \<le> b"
  shows "round_mag a \<le> round_mag b"
proof -
  define ea where "ea = binary_exponent a"
  define eb where "eb = binary_exponent b"
  from assms have b: "0 < b" by simp
  have ra: "round_mag a = of_int (round_even (a / 2 powi (ea - 52))) * 2 powi (ea - 52)"
    and rb: "round_mag b = of_int (round_even (b / 2 powi (eb - 52))) * 2 powi (eb - 52)"
    by (simp_all add: round_mag_def Let_def ea_def eb_def)
  from assms(2) have le: "ea \<le> eb" unfolding ea_def eb_def by (rule binary_exponent_mono)
  show ?thesis
  proof (cases "ea = eb")
    case True
    from assms have "a / 2 powi (eb - 52) \<le> b / 2 powi (eb - 52)"
      by (simp add: divide_right_mono)
    then have "round_even (a / 2 powi (eb - 52)) \<le> round_even (b / 2 powi (eb - 52))"
      by (rule round_even_mono)
    then show ?thesis unfolding ra rb True by (simp add: mult_right_mono)
  next
    case False
    with le have lt: "ea < eb" by simp
    with binary_exponent_range(2)[of b] have "ea < 1024" by (simp add: eb_def)
    then have alt: "a < 2 powi (ea + 1)" unfolding ea_def by (rule binary_exponent_upper)
    have "a / 2 powi (ea - 52) < 2 powi (ea + 1) / 2 powi (ea - 52)"
      using alt by (simp add: divide_strict_right_mono)
    also have "\<dots> = 2 powi 53" by (simp flip: pow2_diff)
    finally have "a / 2 powi (ea - 52) \<le> of_int (2 ^ 53)" by simp
    then have "round_even (a / 2 powi (ea - 52)) \<le> round_even (of_int (2 ^ 53))"
      by (rule round_even_mono)
    then have "round_even (a / 2 powi (ea - 52)) \<le> 2 ^ 53"
      by (simp only: round_even_of_int)
    then have "(of_int (round_even (a / 2 powi (ea - 52))) :: real) \<le> 2 powi 53"
      by (metis of_int_le_iff of_int_numeral of_int_power power_int_numeral)
    then have "round_mag a \<le> 2 powi 53 * 2 powi (ea - 52)"
      unfolding ra by (simp add: mult_right_mono)
    also have "\<dots> = 2 powi (ea + 1)" using pow2_add[of 53 "ea - 52"] by (simp add: add.commute)
    also have "\<dots> \<le> 2 powi eb" using lt by (intro pow2_mono) simp
    finally have up: "round_mag a \<le> 2 powi eb" .
    from lt binary_exponent_range(1)[of a] have "- 1022 < eb" by (simp add: ea_def)
    then have "2 powi eb \<le> b" unfolding eb_def by (rule binary_exponent_lower)
    then have "2 powi eb / 2 powi (eb - 52) \<le> b / 2 powi (eb - 52)"
      by (simp add: divide_right_mono)
    moreover have "(2::real) powi eb / 2 powi (eb - 52) = 2 powi 52" by (simp flip: pow2_diff)
    ultimately have "of_int (2 ^ 52) \<le> b / 2 powi (eb - 52)" by simp
    then have "round_even (of_int (2 ^ 52)) \<le> round_even (b / 2 powi (eb - 52))"
      by (rule round_even_mono)
    then have "2 ^ 52 \<le> round_even (b / 2 powi (eb - 52))"
      by (simp only: round_even_of_int)
    then have "(2::real) powi 52 \<le> of_int (round_even (b / 2 powi (eb - 52)))"
      by (metis of_int_le_iff of_int_numeral of_int_power power_int_numeral)
    then have "2 powi 52 * 2 powi (eb - 52) \<le> round_mag b"
      unfolding rb by (simp add: mult_right_mono)
    moreover have "(2::real) powi 52 * 2 powi (eb - 52) = 2 powi eb"
      using pow2_add[of 52 "eb - 52"] by (simp add: add.commute)
    ultimately show ?thesis using up by linarith
  qed
qed

lemma round_mag_exact:
  assumes a: "a = of_int m * 2 powi k" and m: "0 < m" "m < 2 ^ 53" and k: "- 1074 \<le> k"
  shows "round_mag a = a"
proof -
  define e where "e = binary_exponent a"
  from a m have pos: "0 < a" by simp
  have "a < of_int (2 ^ 53) * 2 powi k"
    unfolding a using m by (intro mult_strict_right_mono) simp_all
  also have "\<dots> = 2 powi (k + 53)" by (simp add: pow2_add)
  finally have lt: "a < 2 powi (k + 53)" .
  have ek: "e - 52 \<le> k"
  proof (cases "- 1022 < e")
    case True
    then have "2 powi e \<le> a" unfolding e_def by (rule binary_exponent_lower)
    with lt have "(2::real) powi e < 2 powi (k + 53)" by linarith
    then have "e < k + 53" by (metis not_le pow2_mono)
    then show ?thesis by simp
  next
    case False
    with binary_exponent_range(1)[of a] have "e = - 1022" by (simp add: e_def)
    with k show ?thesis by simp
  qed
  define j where "j = nat (k - (e - 52))"
  from ek have kj: "k = (e - 52) + int j" unfolding j_def by simp
  have "a / 2 powi (e - 52) = of_int m * 2 ^ j"
    unfolding a by (subst kj) (simp add: pow2_add)
  also have "\<dots> = of_int (m * 2 ^ j)" by simp
  finally have q: "a / 2 powi (e - 52) = of_int (m * 2 ^ j)" .
  have "round_mag a = of_int (round_even (a / 2 powi (e - 52))) * 2 powi (e - 52)"
    by (simp add: round_mag_def Let_def e_def)
  also have "\<dots> = of_int (m * 2 ^ j) * 2 powi (e - 52)"
    by (simp only: q round_even_of_int)
  also have "\<dots> = a" using q by (simp add: field_simps)
  finally show ?thesis .
qed

lemma round_double_not_NaN [simp]: "round_double x \<noteq> NaN"
  by (simp add: round_double_def Let_def)

lemma js_le_trans: "js_le a b \<Longrightarrow> js_le b c \<Longrightarrow> js_le a c"
  by (cases a; cases b; cases c) simp_all

lemma js_le_refl: "a \<noteq> NaN \<Longrightarrow> js_le a a"
  by (cases a) simp_all

lemma round_double_minus: "x \<noteq> 0 \<Longrightarrow> round_double (- x) = js_neg (round_double x)"
  by (simp add: round_double_def Let_def)

lemma round_double_pos: "0 < x \<Longrightarrow> js_le (Fin 0) (round_double x)"
  using round_mag_nonneg[of x] by (simp add: round_double_def Let_def)

lemma round_double_neg: "x < 0 \<Longrightarrow> js_le (round_double x) (Fin 0)"
  using round_mag_nonneg[of "- x"] by (simp add: round_double_def Let_def)

lemma round_double_mono_pos:
  assumes "0 < x" "x \<le> y"
  shows "js_le (round_double x) (round_double y)"
  using round_mag_mono[of x y] round_mag_nonneg[of x] assms
  by (simp add: round_double_def Let_def)

lemma round_double_mono_neg:
  assumes "y < 0" "x \<le> y"
  shows "js_le (round_double x) (round_double y)"
  using round_mag_mono[of "- y" "- x"] round_mag_nonneg[of "- y"] assms
  by (simp add: round_double_def Let_def)

lemma round_double_mono:
  assumes "x \<le> y"
  shows "js_le (round_double x) (round_double y)"
proof -
  consider "0 < x" | "y < 0" | "x \<le> 0" "0 \<le> y" by linarith
  then show ?thesis
  proof cases
    case 1
    then show ?thesis using assms by (rule round_double_mono_pos)
  next
    case 2
    then show ?thesis using assms by (rule round_double_mono_neg)
  next
    case 3
    have a: "js_le (round_double x) (Fin 0)"
      using 3(1) round_double_neg[of x] by (cases "x = 0") (simp_all add: round_double_def)
    have b: "js_le (Fin 0) (round_double y)"
      using 3(2) round_double_pos[of y] by (cases "y = 0") (simp_all add: round_double_def)
    from a b show ?thesis by (rule js_le_trans)
  qed
qed

lemma round_double_exact:
  assumes x: "x = of_int m * 2 powi k" and m: "\<bar>m\<bar> < 2 ^ 53" and k: "- 1074 \<le> k" "k \<le> 971"
  shows "round_double x = Fin x"
proof (cases "m = 0")
  case True
  with x show ?thesis by (simp add: round_double_def)
next
  case False
  define n where "n = \<bar>m\<bar>"
  from False m have n: "0 < n" "n < 2 ^ 53" by (simp_all add: n_def)
  have ax: "\<bar>x\<bar> = of_int n * 2 powi k" by (simp add: x n_def abs_mult)
  from round_mag_exact[OF ax n k(1)] have r: "round_mag \<bar>x\<bar> = \<bar>x\<bar>" .
  have "\<bar>x\<bar> < of_int (2 ^ 53) * 2 powi k"
    unfolding ax using n by (intro mult_strict_right_mono) simp_all
  also have "\<dots> = 2 powi (53 + k)" using pow2_add[of 53 k] by simp
  also have "\<dots> \<le> 2 powi 1024" using k by (intro pow2_mono) simp
  finally have lt: "\<bar>x\<bar> < 2 powi 1024" .
  from False x have nz: "x \<noteq> 0" by simp
  from nz lt r show ?thesis by (auto simp: round_double_def Let_def)
qed

lemma round_double_of_int:
  assumes "\<bar>n\<bar> \<le> 2 ^ 53"
  shows "round_double (of_int n) = Fin (of_int n)"
proof (cases "\<bar>n\<bar> = 2 ^ 53")
  case True
  then have "n = 2 ^ 53 \<or> n = - (2 ^ 53)" by linarith
  then have "(of_int n :: real) = of_int (n div 2) * 2 powi 1" "\<bar>n div 2\<bar> < 2 ^ 53"
    by auto
  then show ?thesis by (intro round_double_exact[of _ "n div 2" 1]) simp_all
next
  case False
  with assms have "\<bar>n\<bar> < 2 ^ 53" by simp
  then show ?thesis by (intro round_double_exact[of _ n 0]) simp_all
qed

lemma round_double_numeral [simp]:
  "numeral k \<le> (9007199254740992 :: int) \<Longrightarrow> round_double (numeral k) = Fin (numeral k)"
  "numeral k \<le> (9007199254740992 :: int) \<Longrightarrow> round_double (- numeral k) = Fin (- numeral k)"
  "round_double 0 = Fin 0" "round_double 1 = Fin 1" "round_double (- 1) = Fin (- 1)"
  using round_double_of_int[of "numeral k"] round_double_of_int[of "- numeral k"]
    round_double_of_int[of 1] round_double_of_int[of "- 1"]
  by (simp_all add: round_double_def)


lemma round_double_eval:
  assumes "0 < x" "2 powi e \<le> x" "x < 2 powi (e + 1)" "- 1022 \<le> e"
    and "r = of_int (round_even (x / 2 powi (e - 52))) * 2 powi (e - 52)"
    and "r < 2 powi 1024" "r \<noteq> 0" "e \<le> 1023"
  shows "round_double x = Fin r" "round_double (- x) = Fin (- r)"
proof -
  from assms(8) have "e \<le> 1024" by simp
  from round_mag_eval[OF assms(1-4) this] assms(1,5-7)
  show "round_double x = Fin r" "round_double (- x) = Fin (- r)"
    by (simp_all add: round_double_def Let_def)
qed

lemma round_double_tenth: "round_double (1 / 10) = Fin tenth"
  unfolding tenth_def
  by (rule round_double_eval(1)[of _ "- 4"]) (simp_all add: round_even_def)

section \<open>Evaluating the arithmetic\<close>

lemma round_double_three_halves: "round_double (3 / 2) = Fin (3 / 2)"
  by (rule round_double_exact[of _ 3 "- 1"]) simp_all

lemma round_double_quarter: "round_double (1 / 4) = Fin (1 / 4)"
  by (rule round_double_exact[of _ 1 "- 2"]) simp_all

lemma round_double_tenth_exact: "round_double tenth = Fin tenth"
  unfolding tenth_def by (rule round_double_exact[of _ 3602879701896397 "- 55"]) simp_all

lemma tenth_ge: "1 / 10 \<le> tenth"
  by (simp add: tenth_def)

lemma round_double_ten_tenths: "round_double (10 * tenth) = Fin 1"
  unfolding tenth_def
  by (rule round_double_eval(1)[of _ 0]) (simp_all add: round_even_def)

lemma js_sub_numeral:
  "b \<noteq> 0 \<Longrightarrow> js_sub (Fin a) (Fin b) = round_double (a - b)"
  "js_sub (Fin a) (Fin 0) = Fin a"
  by (simp_all add: js_sub_def)

lemma js_mul_Fin:
  "a \<noteq> 0 \<Longrightarrow> b \<noteq> 0 \<Longrightarrow> js_mul (Fin a) (Fin b) = round_double (a * b)"
  "0 \<le> b \<Longrightarrow> js_mul (Fin 0) (Fin b) = Fin 0"
  "0 \<le> a \<Longrightarrow> js_mul (Fin a) (Fin 0) = Fin 0"
  by (simp_all add: js_mul_def)

lemma js_div_Fin:
  "a \<noteq> 0 \<Longrightarrow> b \<noteq> 0 \<Longrightarrow> js_div (Fin a) (Fin b) = round_double (a / b)"
  by (simp add: js_div_def)

lemma tenth_pos: "0 < tenth"
  by (simp add: tenth_def)

lemma tenth_nonzero [simp]: "tenth \<noteq> 0"
  using tenth_pos by simp

section \<open>Order and rounding: auxiliary facts\<close>











section \<open>The examples, evaluated\<close>

lemma parse_two_points:
  "parsePolygons example_JSON_parse twoPointsText =
     Inr [[\<lparr>point_x = Fin 0, point_z = Fin 0\<rparr>, \<lparr>point_x = Fin 10, point_z = Fin 10\<rparr>]]"
  by (simp add: parsePolygons_def parsePolygons_try_def example_JSON_parse_def
      twoPointsValue_def validatePoint_def str_def)

lemma parse_number_as_point:
  "parsePolygons example_JSON_parse (str ''[[1]]'') =
     Inl (Error (str ''Invalid JSON format: Point 0 in polygon 0 must have x and z properties''))"
  by (simp add: parsePolygons_def parsePolygons_try_def example_JSON_parse_def twoPointsText_def
      overflowText_def bigPointText_def validatePoint_def missing_msg_def show_nat.simps str_def)

lemma parse_not_json:
  "parsePolygons example_JSON_parse (str ''not json'') =
     Inl (Error (str ''Invalid JSON format: Unexpected token o in JSON at position 1''))"
  by (simp add: parsePolygons_def parsePolygons_try_def example_JSON_parse_def twoPointsText_def
      overflowText_def bigPointText_def str_def)


lemma parse_big_point:
  "parsePolygons example_JSON_parse bigPointText =
     Inr [[\<lparr>point_x = Fin 100000000000000000, point_z = Fin 100000000000000000\<rparr>]]"
  by (simp add: parsePolygons_def parsePolygons_try_def example_JSON_parse_def twoPointsText_def
      overflowText_def bigPointText_def validatePoint_def str_def)

lemma parse_empty_polygon:
  "parsePolygons example_JSON_parse (str ''[[]]'') = Inr [[]]"
  by (simp add: parsePolygons_def parsePolygons_try_def example_JSON_parse_def twoPointsText_def
      overflowText_def bigPointText_def str_def)

lemma trim_examples:
  "trim twoPointsText \<noteq> []" "trim (str ''[[1]]'') \<noteq> []" "trim (str ''not json'') \<noteq> []"
  "trim (str ''[[]]'') \<noteq> []"
  by (simp_all add: trim_def is_ws_def twoPointsText_def str_def)

lemma bounds_two_points:
  "calculateBounds [[\<lparr>point_x = Fin 0, point_z = Fin 0\<rparr>, \<lparr>point_x = Fin 10, point_z = Fin 10\<rparr>]] None =
     \<lparr>minX = Fin (- 1), minY = Fin (- 1), maxX = Fin 11, maxY = Fin 11\<rparr>"
  by (simp add: calculateBounds_def includePoint_def js_sub_def js_mul_Fin Let_def
      round_double_tenth round_double_ten_tenths)

lemma load_two_points:
  "handleInputChange example_JSON_parse twoPointsText initialState =
     initialState\<lparr>inputText := twoPointsText,
       polygons := [[\<lparr>point_x = Fin 0, point_z = Fin 0\<rparr>, \<lparr>point_x = Fin 10, point_z = Fin 10\<rparr>]],
       viewBox := \<lparr>vb_minX = Fin (- 1), vb_minY = Fin (- 1), width = Fin 12, height = Fin 12\<rparr>\<rparr>"
  by (simp add: handleInputChange_def Let_def trim_examples parse_two_points
      updateViewBox_def bounds_two_points js_sub_def initialState_def)

lemma fail_after_two_points:
  "handleInputChange example_JSON_parse (str ''not json'')
     (handleInputChange example_JSON_parse twoPointsText initialState) =
   initialState\<lparr>inputText := str ''not json'',
     error := str ''Invalid JSON format: Unexpected token o in JSON at position 1'',
     polygons := [],
     viewBox := \<lparr>vb_minX = Fin (- 1), vb_minY = Fin (- 1), width = Fin 12, height = Fin 12\<rparr>\<rparr>"
  by (simp add: load_two_points)
     (simp add: handleInputChange_def Let_def trim_examples parse_not_json initialState_def)

section \<open>Bounds: auxiliary facts\<close>

lemma fold_fold_concat: "fold (\<lambda>xs b. fold f xs b) xss b = fold f (concat xss) b"
  by (induction xss arbitrary: b) simp_all

lemma fold_all:
  "(case cp of
      None \<Rightarrow> fold (\<lambda>polygon b. fold includePoint polygon b) polys b0
    | Some p \<Rightarrow> includePoint p (fold (\<lambda>polygon b. fold includePoint polygon b) polys b0))
   = fold includePoint (allPoints polys cp) b0"
  by (cases cp) (simp_all add: allPoints_def fold_fold_concat)

lemma calculateBounds_alt:
  assumes ne: "allPoints polys cp \<noteq> []"
  shows "calculateBounds polys cp =
     (let b2 = fold includePoint (allPoints polys cp)
                 \<lparr>minX = PInf, minY = PInf, maxX = NInf, maxY = NInf\<rparr>;
          b3 = (if js_eq (minX b2) (maxX b2) \<and> js_eq (minY b2) (maxY b2)
                then \<lparr>minX = js_sub (minX b2) (Fin 5),
                      minY = js_sub (minY b2) (Fin 5),
                      maxX = js_add (maxX b2) (Fin 5),
                      maxY = js_add (maxY b2) (Fin 5)\<rparr>
                else b2);
          padding = js_mul (js_max (js_sub (maxX b3) (minX b3)) (js_sub (maxY b3) (minY b3)))
                      (round_double (1 / 10))
      in \<lparr>minX = js_sub (minX b3) padding,
          minY = js_sub (minY b3) padding,
          maxX = js_add (maxX b3) padding,
          maxY = js_add (maxY b3) padding\<rparr>)"
proof -
  from ne have nd: "\<not> (polys = [] \<and> cp = None)"
    by (auto simp: allPoints_def split: option.splits)
  show ?thesis
    by (simp only: calculateBounds_def if_not_P[OF nd] Let_def fold_all)
qed












section \<open>Bounds: the statements\<close>




text \<open>
  C5. \<^verbatim>\<open>calculateBounds\<close> of an empty polygon set with no custom point is exactly the
  rectangle \<^verbatim>\<open>{minX: 0, minY: 0, maxX: 100, maxY: 100}\<close>: the early return happens
  before the single-point expansion and the padding.
\<close>

theorem calculateBounds_default:
  "calculateBounds [] None = \<lparr>minX = Fin 0, minY = Fin 0, maxX = Fin 100, maxY = Fin 100\<rparr>"
  by (simp add: calculateBounds_def)

section \<open>Bounds of a single point\<close>

lemma js_min_idem: "js_min (js_min m a) a = js_min m a"
  by (cases m; cases a) simp_all

lemma js_max_idem: "js_max (js_max m a) a = js_max m a"
  by (cases m; cases a) simp_all

lemma includePoint_idem: "includePoint p (includePoint p b) = includePoint p b"
  by (simp add: includePoint_def js_min_idem js_max_idem)

lemma fold_includePoint_same:
  "\<forall>q\<in>set ps. q = p \<Longrightarrow> fold includePoint ps (includePoint p b) = includePoint p b"
proof (induction ps)
  case Nil
  show ?case by simp
next
  case (Cons a ps)
  from Cons.prems have a: "a = p" and rest: "\<forall>q\<in>set ps. q = p" by simp_all
  show ?case unfolding a using Cons.IH[OF rest] by (simp add: includePoint_idem)
qed

lemma fold_single_point:
  assumes one: "set (allPoints polys cp) = {p}"
  shows "allPoints polys cp \<noteq> []"
    and "fold includePoint (allPoints polys cp)
           \<lparr>minX = PInf, minY = PInf, maxX = NInf, maxY = NInf\<rparr> =
         includePoint p \<lparr>minX = PInf, minY = PInf, maxX = NInf, maxY = NInf\<rparr>"
proof -
  define ps where "ps = allPoints polys cp"
  from one have sp: "set ps = {p}" by (simp add: ps_def)
  then have ne: "ps \<noteq> []" by auto
  then obtain q qs where qs: "ps = q # qs" by (cases ps) simp_all
  from sp have allp: "\<forall>r\<in>set ps. r = p" by simp
  with qs have q: "q = p" and rest: "\<forall>r\<in>set qs. r = p" by simp_all
  from ne show "allPoints polys cp \<noteq> []" by (simp add: ps_def)
  have "fold includePoint ps \<lparr>minX = PInf, minY = PInf, maxX = NInf, maxY = NInf\<rparr> =
      fold includePoint qs (includePoint p \<lparr>minX = PInf, minY = PInf, maxX = NInf, maxY = NInf\<rparr>)"
    by (simp add: qs q)
  also have "\<dots> = includePoint p \<lparr>minX = PInf, minY = PInf, maxX = NInf, maxY = NInf\<rparr>"
    by (rule fold_includePoint_same[OF rest])
  finally show "fold includePoint (allPoints polys cp)
           \<lparr>minX = PInf, minY = PInf, maxX = NInf, maxY = NInf\<rparr> =
         includePoint p \<lparr>minX = PInf, minY = PInf, maxX = NInf, maxY = NInf\<rparr>"
    by (simp add: ps_def)
qed

lemma js_add_int:
  assumes "x + y = of_int k" "\<bar>k\<bar> \<le> 2 ^ 53"
  shows "js_add (Fin x) (Fin y) = Fin (of_int k)"
  using assms(1) round_double_of_int[OF assms(2)] by (simp only: js_add.simps)

lemma js_sub_int:
  assumes "y \<noteq> 0" "x - y = of_int k" "\<bar>k\<bar> \<le> 2 ^ 53"
  shows "js_sub (Fin x) (Fin y) = Fin (of_int k)"
proof -
  from assms(1) have "js_sub (Fin x) (Fin y) = js_add (Fin x) (Fin (- y))"
    by (simp add: js_sub_def)
  also have "\<dots> = Fin (of_int k)"
    by (rule js_add_int) (use assms in simp_all)
  finally show ?thesis .
qed

text \<open>One axis of the computation for an integer coordinate: no step rounds.\<close>

lemma axis_int:
  assumes "\<bar>m\<bar> \<le> 2 ^ 52"
  shows "js_sub (Fin (of_int m)) (Fin 5) = Fin (of_int m - 5)"
    and "js_add (Fin (of_int m)) (Fin 5) = Fin (of_int m + 5)"
    and "js_sub (Fin (of_int m + 5)) (Fin (of_int m - 5)) = Fin 10"
    and "js_sub (Fin (of_int m - 5)) (Fin 1) = Fin (of_int m - 6)"
    and "js_add (Fin (of_int m + 5)) (Fin 1) = Fin (of_int m + 6)"
proof -
  have "js_sub (Fin (of_int m)) (Fin 5) = Fin (of_int (m - 5))"
    by (rule js_sub_int) (use assms in simp_all)
  then show "js_sub (Fin (of_int m)) (Fin 5) = Fin (of_int m - 5)" by simp
  have "js_add (Fin (of_int m)) (Fin 5) = Fin (of_int (m + 5))"
    by (rule js_add_int) (use assms in simp_all)
  then show "js_add (Fin (of_int m)) (Fin 5) = Fin (of_int m + 5)" by (simp only: of_int_add of_int_numeral)
  show "js_sub (Fin (of_int m + 5)) (Fin (of_int m - 5)) = Fin 10"
  proof (cases "of_int m - 5 = (0::real)")
    case True
    then have "of_int m + 5 = (10::real)" by simp
    with True show ?thesis by (simp add: js_sub_def)
  next
    case False
    have "js_sub (Fin (of_int m + 5)) (Fin (of_int m - 5)) = Fin (of_int 10)"
      by (rule js_sub_int) (use False in simp_all)
    then show ?thesis by (simp only: of_int_numeral)
  qed
  have "js_sub (Fin (of_int m - 5)) (Fin 1) = Fin (of_int (m - 6))"
    by (rule js_sub_int) (use assms in simp_all)
  then show "js_sub (Fin (of_int m - 5)) (Fin 1) = Fin (of_int m - 6)"
    by (simp only: of_int_diff of_int_numeral)
  have "js_add (Fin (of_int m + 5)) (Fin 1) = Fin (of_int (m + 6))"
    by (rule js_add_int) (use assms in simp_all)
  then show "js_add (Fin (of_int m + 5)) (Fin 1) = Fin (of_int m + 6)"
    by (simp only: of_int_add of_int_numeral)
qed

text \<open>
  C6, with the condition it needs. When all the points (those of the polygons and the
  custom point) are one and the same point \<open>(x0, z0)\<close>, given once or repeated or only
  as the custom point, and \<open>x0\<close> and \<open>z0\<close> are integers of magnitude at most \<open>2^52\<close>,
  no step rounds: the zero-area rectangle is widened by 5 on every side, the padding
  is then \<open>max 10 10 * 0.1 = 1\<close>, and the result reaches exactly 6 units from the
  point on each side.
\<close>

theorem calculateBounds_single_point:
  assumes one: "set (allPoints polys cp) = {\<lparr>point_x = Fin (of_int m), point_z = Fin (of_int n)\<rparr>}"
      and m: "\<bar>m\<bar> \<le> 2 ^ 52" and n: "\<bar>n\<bar> \<le> 2 ^ 52"
  shows "calculateBounds polys cp =
           \<lparr>minX = Fin (of_int m - 6), minY = Fin (of_int n - 6),
            maxX = Fin (of_int m + 6), maxY = Fin (of_int n + 6)\<rparr>"
proof -
  note f = fold_single_point[OF one]
  have b2: "fold includePoint (allPoints polys cp)
        \<lparr>minX = PInf, minY = PInf, maxX = NInf, maxY = NInf\<rparr> =
      \<lparr>minX = Fin (of_int m), minY = Fin (of_int n),
       maxX = Fin (of_int m), maxY = Fin (of_int n)\<rparr>"
    unfolding f(2) by (simp add: includePoint_def)
  show ?thesis
    by (simp add: calculateBounds_alt[OF f(1)] b2 Let_def axis_int[OF m] axis_int[OF n]
        js_mul_Fin round_double_tenth round_double_ten_tenths del: js_add.simps(1))
qed

text \<open>The point \<open>(5, 5)\<close> alone in one polygon: the rectangle is \<open>[-1, 11] \<times> [-1, 11]\<close>.\<close>

theorem calculateBounds_single_point_witness:
  "calculateBounds [[\<lparr>point_x = Fin 5, point_z = Fin 5\<rparr>]] None =
     \<lparr>minX = Fin (- 1), minY = Fin (- 1), maxX = Fin 11, maxY = Fin 11\<rparr>"
proof -
  have h: "set (allPoints [[\<lparr>point_x = Fin 5, point_z = Fin 5\<rparr>]] None) =
      {\<lparr>point_x = Fin (of_int 5), point_z = Fin (of_int 5)\<rparr>}"
    by (simp add: allPoints_def)
  from calculateBounds_single_point[OF h] show ?thesis by simp
qed

text \<open>
  Without the condition the statement fails. For the single point \<open>(1e17, 1e17)\<close> of
  the text \<^verbatim>\<open>[[{"x":1e17,"z":1e17}]]\<close> the doubles next to \<open>1e17\<close> are 16 apart, so
  \<open>1e17 - 5\<close> and \<open>1e17 + 5\<close> both round to \<open>1e17\<close>, the padding is 0, and the
  rectangle has no extent at all.
\<close>

theorem single_point_not_six_units:
  "parsePolygons example_JSON_parse bigPointText =
     Inr [[\<lparr>point_x = Fin 100000000000000000, point_z = Fin 100000000000000000\<rparr>]] \<and>
   calculateBounds [[\<lparr>point_x = Fin 100000000000000000, point_z = Fin 100000000000000000\<rparr>]] None =
     \<lparr>minX = Fin 100000000000000000, minY = Fin 100000000000000000,
      maxX = Fin 100000000000000000, maxY = Fin 100000000000000000\<rparr> \<and>
   minX (calculateBounds
     [[\<lparr>point_x = Fin 100000000000000000, point_z = Fin 100000000000000000\<rparr>]] None) \<noteq>
     Fin (100000000000000000 - 6)"
proof -
  have lo: "round_double 99999999999999995 = Fin 100000000000000000"
    by (rule round_double_eval(1)[of _ 56]) (simp_all add: round_even_def)
  have hi: "round_double 100000000000000005 = Fin 100000000000000000"
    by (rule round_double_eval(1)[of _ 56]) (simp_all add: round_even_def)
  have same: "round_double 100000000000000000 = Fin 100000000000000000"
    by (rule round_double_exact[of _ 762939453125 17]) simp_all
  have b: "calculateBounds
      [[\<lparr>point_x = Fin 100000000000000000, point_z = Fin 100000000000000000\<rparr>]] None =
     \<lparr>minX = Fin 100000000000000000, minY = Fin 100000000000000000,
      maxX = Fin 100000000000000000, maxY = Fin 100000000000000000\<rparr>"
    by (simp add: calculateBounds_def includePoint_def js_sub_def js_mul_Fin Let_def
        round_double_tenth lo hi same tenth_pos less_imp_le)
  show ?thesis unfolding b by (simp add: parse_big_point)
qed

section \<open>Zoom\<close>

lemma zoom_updateViewBox: "zoom (updateViewBox polys cp s) = zoom s"
  by (simp add: updateViewBox_def Let_def)

text \<open>A rounded value between two doubles is a finite number between them.\<close>

lemma round_double_between:
  assumes "a \<le> x" "x \<le> b" "round_double a = Fin a" "round_double b = Fin b" "0 < a"
  shows "\<exists>r. round_double x = Fin r \<and> a \<le> r \<and> r \<le> b"
proof -
  from round_double_mono[OF assms(1)] assms(3) have "js_le (Fin a) (round_double x)" by simp
  moreover from round_double_mono[OF assms(2)] assms(4) have "js_le (round_double x) (Fin b)"
    by simp
  ultimately show ?thesis using assms(5) by (cases "round_double x") auto
qed

lemma zoom_step_range:
  assumes "zoom s = Fin r" "tenth \<le> r" "r \<le> 10"
  shows "\<exists>r'. zoom (zoom_step c s) = Fin r' \<and> tenth \<le> r' \<and> r' \<le> 10"
proof (cases c)
  case ZoomIn
  from assms(2) tenth_pos have r: "r \<noteq> 0" by simp
  have "\<exists>q. round_double (r * (3 / 2)) = Fin q \<and> tenth \<le> q \<and> q \<le> 15"
    by (rule round_double_between) (use assms tenth_pos in \<open>simp_all add: round_double_tenth_exact\<close>)
  then obtain q where "round_double (r * (3 / 2)) = Fin q" "tenth \<le> q" "q \<le> 15" by blast
  moreover have "tenth \<le> 10" by (simp add: tenth_def)
  ultimately show ?thesis using ZoomIn assms(1) r by (auto simp: handleZoomIn_def js_mul_Fin)
next
  case ZoomOut
  from assms(2) tenth_pos have r: "0 < r" by simp
  have t10: "tenth \<le> 10" by (simp add: tenth_def)
  from r have "js_le (Fin 0) (round_double (r / (3 / 2)))"
    by (intro round_double_pos) simp
  moreover from assms(3) r have "r / (3 / 2) \<le> 10" by simp
  from round_double_mono[OF this] have "js_le (round_double (r / (3 / 2))) (Fin 10)" by simp
  ultimately have "\<exists>q. js_max (round_double (r / (3 / 2))) (Fin tenth) = Fin q \<and>
      tenth \<le> q \<and> q \<le> 10"
    using tenth_pos t10 by (cases "round_double (r / (3 / 2))") auto
  with ZoomOut assms(1) r show ?thesis
    by (simp add: handleZoomOut_def js_div_Fin round_double_tenth)
next
  case Reset
  then show ?thesis using tenth_pos
    by (simp add: handleReset_def zoom_updateViewBox tenth_def)
qed

lemma zoom_fold_range:
  "zoom s = Fin r \<Longrightarrow> tenth \<le> r \<Longrightarrow> r \<le> 10 \<Longrightarrow>
   \<exists>r'. zoom (fold zoom_step cmds s) = Fin r' \<and> tenth \<le> r' \<and> r' \<le> 10"
proof (induction cmds arbitrary: s r)
  case Nil
  then show ?case by simp
next
  case (Cons c cmds)
  from zoom_step_range[OF Cons.prems, of c] obtain r1 where
    r1: "zoom (zoom_step c s) = Fin r1" "tenth \<le> r1" "r1 \<le> 10" by blast
  from Cons.IH[OF r1] show ?case by simp
qed

text \<open>The zoom values on the way up from 1, all exact, and the first one on the way down.\<close>

lemma round_double_zoom_in:
  "round_double (9 / 4) = Fin (9 / 4)"
  "round_double (27 / 8) = Fin (27 / 8)"
  "round_double (81 / 16) = Fin (81 / 16)"
  "round_double (243 / 32) = Fin (243 / 32)"
  "round_double (729 / 64) = Fin (729 / 64)"
  using round_double_exact[of "9 / 4" 9 "- 2"] round_double_exact[of "27 / 8" 27 "- 3"]
    round_double_exact[of "81 / 16" 81 "- 4"] round_double_exact[of "243 / 32" 243 "- 5"]
    round_double_exact[of "729 / 64" 729 "- 6"]
  by simp_all

text \<open>A zoom-in from the floor: \<open>0.1 * 1.5\<close> is a tie and rounds up, to \<open>0.15000000000000002\<close>.\<close>

lemma zoom_in_from_floor:
  "zoom (handleZoomIn (s\<lparr>zoom := round_double (1 / 10)\<rparr>)) =
     Fin (1351079888211149 / 9007199254740992)"
proof -
  have "round_double (tenth * (3 / 2)) = Fin (1351079888211149 / 9007199254740992)"
    unfolding tenth_def
    by (rule round_double_eval(1)[of _ "- 3"]) (simp_all add: round_even_def)
  then show ?thesis
    by (simp add: handleZoomIn_def round_double_tenth js_mul_Fin)
qed

lemma round_double_two_thirds:
  "round_double (2 / 3) = Fin (6004799503160661 / 9007199254740992)"
  by (rule round_double_eval(1)[of _ "- 1"]) (simp_all add: round_even_def)

text \<open>
  C7. After any sequence of zoom-in (\<open>z \<mapsto> min (z * 1.5) 10\<close>), zoom-out
  (\<open>z \<mapsto> max (z / 1.5) 0.1\<close>) and reset (\<open>z \<mapsto> 1\<close>) commands from the initial
  state, whose zoom is 1, the zoom is a finite number in \<open>[0.1, 10]\<close>; so it is not
  zero, and the width and height of the view given to the drawing are the view box's
  divided by that non-zero number.
\<close>

theorem zoom_stays_in_range:
  "\<exists>r. zoom (fold zoom_step cmds initialState) = Fin r \<and> 1 / 10 \<le> r \<and> r \<le> 10 \<and> r \<noteq> 0 \<and>
       width (currentViewBox (fold zoom_step cmds initialState)) =
         js_div (width (viewBox (fold zoom_step cmds initialState))) (Fin r) \<and>
       height (currentViewBox (fold zoom_step cmds initialState)) =
         js_div (height (viewBox (fold zoom_step cmds initialState))) (Fin r)"
proof -
  have "zoom initialState = Fin 1" by (simp add: initialState_def)
  moreover have "tenth \<le> 1" by (simp add: tenth_def)
  ultimately obtain r where
    r: "zoom (fold zoom_step cmds initialState) = Fin r" "tenth \<le> r" "r \<le> 10"
    using zoom_fold_range[of initialState 1 cmds] by auto
  from r(2) tenth_ge have "1 / 10 \<le> r" by simp
  with r show ?thesis by (auto simp: currentViewBox_def)
qed

text \<open>Seven zoom-ins reach the cap 10; one zoom-out gives the double nearest to \<open>2/3\<close>.\<close>

theorem zoom_stays_in_range_witness:
  "(\<exists>r. zoom (fold zoom_step [ZoomIn, ZoomIn, ZoomIn, ZoomIn, ZoomIn, ZoomIn, ZoomIn]
            initialState) = Fin r \<and> 1 / 10 \<le> r \<and> r \<le> 10) \<and>
   zoom (fold zoom_step [ZoomIn, ZoomIn, ZoomIn, ZoomIn, ZoomIn, ZoomIn, ZoomIn]
            initialState) = Fin 10 \<and>
   zoom (fold zoom_step [ZoomOut] initialState) = Fin (6004799503160661 / 9007199254740992)"
proof -
  have a: "zoom (fold zoom_step [ZoomIn, ZoomIn, ZoomIn, ZoomIn, ZoomIn, ZoomIn, ZoomIn]
            initialState) = Fin 10"
    by (simp add: handleZoomIn_def initialState_def js_mul_Fin round_double_three_halves
        round_double_zoom_in)
  have b: "zoom (fold zoom_step [ZoomOut] initialState) =
      Fin (6004799503160661 / 9007199254740992)"
    by (simp add: handleZoomOut_def initialState_def js_div_Fin round_double_two_thirds
        round_double_tenth tenth_def)
  from zoom_stays_in_range[of "[ZoomIn, ZoomIn, ZoomIn, ZoomIn, ZoomIn, ZoomIn, ZoomIn]"] a b
  show ?thesis by auto
qed

section \<open>Dragging\<close>

text \<open>Differences and products that are not rounded: integers, and multiples of a power of two.\<close>

lemma js_sub_of_int:
  assumes "\<bar>i - j\<bar> \<le> 2 ^ 53"
  shows "js_sub (Fin (of_int i)) (Fin (of_int j)) = Fin (of_int i - of_int j)"
proof (cases "j = 0")
  case True
  then show ?thesis by (simp add: js_sub_def)
next
  case False
  have "js_sub (Fin (of_int i)) (Fin (of_int j)) = Fin (of_int (i - j))"
    by (rule js_sub_int) (use False assms in simp_all)
  then show ?thesis by (simp only: of_int_diff)
qed

lemma js_mul_dyadic:
  assumes "0 < m" "\<bar>d * m\<bar> < 2 ^ 53" "- 1074 \<le> k" "k \<le> 971"
  shows "js_mul (Fin (of_int d)) (Fin (of_int m * 2 powi k)) =
           Fin (of_int d * (of_int m * 2 powi k))"
proof (cases "d = 0")
  case True
  with assms(1) show ?thesis by (simp add: js_mul_Fin)
next
  case False
  with assms(1) have "js_mul (Fin (of_int d)) (Fin (of_int m * 2 powi k)) =
      round_double (of_int d * (of_int m * 2 powi k))"
    by (intro js_mul_Fin) simp_all
  also have "\<dots> = Fin (of_int d * (of_int m * 2 powi k))"
    by (rule round_double_exact[of _ "d * m" k]) (use assms in simp_all)
  finally show ?thesis .
qed

lemma js_sub_dyadic:
  assumes "\<bar>n - q\<bar> < 2 ^ 53" "- 1074 \<le> k" "k \<le> 971"
  shows "js_sub (Fin (of_int n * 2 powi k)) (Fin (of_int q * 2 powi k)) =
           Fin (of_int n * 2 powi k - of_int q * 2 powi k)"
proof (cases "q = 0")
  case True
  then show ?thesis by (simp add: js_sub_def)
next
  case False
  then have "js_sub (Fin (of_int n * 2 powi k)) (Fin (of_int q * 2 powi k)) =
      round_double (of_int n * 2 powi k - of_int q * 2 powi k)"
    by (intro js_sub_numeral) simp
  also have "\<dots> = Fin (of_int n * 2 powi k - of_int q * 2 powi k)"
    by (rule round_double_exact[of _ "n - q" k]) (use assms in \<open>simp_all add: algebra_simps\<close>)
  finally show ?thesis .
qed

text \<open>
  A case in which nothing is rounded: pointer positions that are whole pixels below
  \<open>2^24\<close>, and a scale factor and a pan offset that are multiples of one power of
  two, the one by less than \<open>2^24\<close>, the other by at most \<open>2^50\<close>.
\<close>

lemma drag_exact_dyadic:
  assumes i: "\<bar>ia\<bar> \<le> 2 ^ 24" "\<bar>i1\<bar> \<le> 2 ^ 24" "\<bar>i2\<bar> \<le> 2 ^ 24"
      and m: "0 < m" "m < 2 ^ 24" and n: "\<bar>n\<bar> \<le> 2 ^ 50" and k: "- 1074 \<le> k" "k \<le> 971"
  shows "drag_exact (of_int ia) (of_int i1) (of_int i2) (of_int n * 2 powi k)
           (of_int m * 2 powi k)"
proof -
  have d: "\<bar>d\<bar> \<le> 2 ^ 25 \<Longrightarrow> \<bar>d * m\<bar> \<le> 2 ^ 49" for d :: int
  proof -
    assume "\<bar>d\<bar> \<le> 2 ^ 25"
    with m have "\<bar>d\<bar> * \<bar>m\<bar> \<le> 2 ^ 25 * 2 ^ 24" by (intro mult_mono) simp_all
    then show ?thesis by (simp add: abs_mult)
  qed
  have d1: "\<bar>i1 - ia\<bar> \<le> 2 ^ 25" and d2: "\<bar>i2 - i1\<bar> \<le> 2 ^ 25" and d3: "\<bar>i2 - ia\<bar> \<le> 2 ^ 25"
    using i by simp_all
  note p1 = d[OF d1] and p2 = d[OF d2] and p3 = d[OF d3]
  have s1: "js_sub (Fin (of_int i1)) (Fin (of_int ia)) = Fin (of_int i1 - of_int ia)"
    by (rule js_sub_of_int) (use d1 in simp)
  have s2: "js_sub (Fin (of_int i2)) (Fin (of_int i1)) = Fin (of_int i2 - of_int i1)"
    by (rule js_sub_of_int) (use d2 in simp)
  have s3: "js_sub (Fin (of_int i2)) (Fin (of_int ia)) = Fin (of_int i2 - of_int ia)"
    by (rule js_sub_of_int) (use d3 in simp)
  have m1: "js_mul (Fin (of_int (i1 - ia))) (Fin (of_int m * 2 powi k)) =
      Fin (of_int (i1 - ia) * (of_int m * 2 powi k))"
    by (rule js_mul_dyadic) (use m p1 k in simp_all)
  have m2: "js_mul (Fin (of_int (i2 - i1))) (Fin (of_int m * 2 powi k)) =
      Fin (of_int (i2 - i1) * (of_int m * 2 powi k))"
    by (rule js_mul_dyadic) (use m p2 k in simp_all)
  have m3: "js_mul (Fin (of_int (i2 - ia))) (Fin (of_int m * 2 powi k)) =
      Fin (of_int (i2 - ia) * (of_int m * 2 powi k))"
    by (rule js_mul_dyadic) (use m p3 k in simp_all)
  have q1: "js_sub (Fin (of_int n * 2 powi k)) (Fin (of_int ((i1 - ia) * m) * 2 powi k)) =
      Fin (of_int n * 2 powi k - of_int ((i1 - ia) * m) * 2 powi k)"
    by (rule js_sub_dyadic) (use n p1 k in simp_all)
  have q2: "js_sub (Fin (of_int (n - (i1 - ia) * m) * 2 powi k))
        (Fin (of_int ((i2 - i1) * m) * 2 powi k)) =
      Fin (of_int (n - (i1 - ia) * m) * 2 powi k - of_int ((i2 - i1) * m) * 2 powi k)"
    by (rule js_sub_dyadic) (use n p1 p2 k in simp_all)
  have q3: "js_sub (Fin (of_int n * 2 powi k)) (Fin (of_int ((i2 - ia) * m) * 2 powi k)) =
      Fin (of_int n * 2 powi k - of_int ((i2 - ia) * m) * 2 powi k)"
    by (rule js_sub_dyadic) (use n p3 k in simp_all)
  have e1: "of_int (i1 - ia) * (of_int m * 2 powi k) = (of_int ((i1 - ia) * m) * 2 powi k :: real)"
    and e2: "of_int (i2 - i1) * (of_int m * 2 powi k) = (of_int ((i2 - i1) * m) * 2 powi k :: real)"
    and e3: "of_int (i2 - ia) * (of_int m * 2 powi k) = (of_int ((i2 - ia) * m) * 2 powi k :: real)"
    and e4: "of_int n * 2 powi k - of_int ((i1 - ia) * m) * 2 powi k =
        (of_int (n - (i1 - ia) * m) * 2 powi k :: real)"
    by (simp_all add: algebra_simps)
  show ?thesis
    unfolding drag_exact_def of_int_diff[symmetric]
    unfolding s1[unfolded of_int_diff[symmetric]] s2[unfolded of_int_diff[symmetric]]
      s3[unfolded of_int_diff[symmetric]] m1 m2 m3 e1 e2 e3 q1 e4 q2 q3
    by simp
qed

text \<open>
  C8, with the condition it needs. In the dragging state, with a finite anchor and pan
  offset and finite scale factors \<open>(width / zoom) / surface width\<close> and
  \<open>(height / zoom) / surface height\<close>, and when on both axes no difference and no
  product of the moves is rounded, a move to \<open>(x1, y1)\<close> followed by a move to
  \<open>(x2, y2)\<close> from the updated anchor leaves the same state, pan offset and anchor
  included, as the single move to \<open>(x2, y2)\<close> from the original anchor: the pan offset
  less the whole delta times the scale factor.
\<close>

theorem drag_moves_compose:
  assumes drag: "isDragging s" "dragStart s = Some \<lparr>off_x = Fin ax, off_y = Fin ay\<rparr>"
      and pan: "panOffset s = \<lparr>off_x = Fin px, off_y = Fin py\<rparr>"
      and sx: "js_div (js_div (width (viewBox s)) (zoom s)) (rect_width rect) = Fin sx"
      and sy: "js_div (js_div (height (viewBox s)) (zoom s)) (rect_height rect) = Fin sy"
      and ex: "drag_exact ax x1 x2 px sx" and ey: "drag_exact ay y1 y2 py sy"
  shows "handleMouseMove (Some rect) (Fin x2) (Fin y2)
           (handleMouseMove (Some rect) (Fin x1) (Fin y1) s) =
         handleMouseMove (Some rect) (Fin x2) (Fin y2) s
       \<and> panOffset (handleMouseMove (Some rect) (Fin x2) (Fin y2) s) =
           \<lparr>off_x = Fin (px - (x2 - ax) * sx), off_y = Fin (py - (y2 - ay) * sy)\<rparr>"
proof -
  have lin: "p - (u - a) * f - (v - u) * f = p - (v - a) * f" for p u v a f :: real
    by (simp add: algebra_simps)
  from drag pan sx sy ex
  have one: "handleMouseMove (Some rect) (Fin x1) (Fin y1) s =
      s\<lparr>panOffset := \<lparr>off_x = Fin (px - (x1 - ax) * sx), off_y = Fin (py - (y1 - ay) * sy)\<rparr>,
        dragStart := Some \<lparr>off_x = Fin x1, off_y = Fin y1\<rparr>\<rparr>"
    using ey by (simp add: handleMouseMove_def Let_def drag_exact_def)
  from drag pan sx sy ex
  have whole: "handleMouseMove (Some rect) (Fin x2) (Fin y2) s =
      s\<lparr>panOffset := \<lparr>off_x = Fin (px - (x2 - ax) * sx), off_y = Fin (py - (y2 - ay) * sy)\<rparr>,
        dragStart := Some \<lparr>off_x = Fin x2, off_y = Fin y2\<rparr>\<rparr>"
    using ey by (simp add: handleMouseMove_def Let_def drag_exact_def)
  from drag sx sy ex
  have two: "handleMouseMove (Some rect) (Fin x2) (Fin y2)
        (s\<lparr>panOffset := \<lparr>off_x = Fin (px - (x1 - ax) * sx), off_y = Fin (py - (y1 - ay) * sy)\<rparr>,
           dragStart := Some \<lparr>off_x = Fin x1, off_y = Fin y1\<rparr>\<rparr>) =
      s\<lparr>panOffset := \<lparr>off_x = Fin (px - (x1 - ax) * sx - (x2 - x1) * sx),
                       off_y = Fin (py - (y1 - ay) * sy - (y2 - y1) * sy)\<rparr>,
        dragStart := Some \<lparr>off_x = Fin x2, off_y = Fin y2\<rparr>\<rparr>"
    using ey by (simp add: handleMouseMove_def Let_def drag_exact_def)
  show ?thesis unfolding one two whole lin by simp
qed

text \<open>
  A press at \<open>(100, 50)\<close> in the initial state on a surface of 400 by 400 pixels, where
  the scale factors are \<open>1/4\<close>, then moves to \<open>(140, 58)\<close> and to \<open>(128, 62)\<close>.
\<close>

theorem drag_moves_compose_witness:
  "handleMouseMove (Some \<lparr>rect_width = Fin 400, rect_height = Fin 400\<rparr>) (Fin 128) (Fin 62)
     (handleMouseMove (Some \<lparr>rect_width = Fin 400, rect_height = Fin 400\<rparr>) (Fin 140) (Fin 58)
        (handleMouseDown 0 (Fin 100) (Fin 50) initialState)) =
   handleMouseMove (Some \<lparr>rect_width = Fin 400, rect_height = Fin 400\<rparr>) (Fin 128) (Fin 62)
     (handleMouseDown 0 (Fin 100) (Fin 50) initialState) \<and>
   panOffset (handleMouseMove (Some \<lparr>rect_width = Fin 400, rect_height = Fin 400\<rparr>)
     (Fin 128) (Fin 62) (handleMouseDown 0 (Fin 100) (Fin 50) initialState)) =
     \<lparr>off_x = Fin (- 7), off_y = Fin (- 3)\<rparr>"
proof -
  let ?s = "handleMouseDown 0 (Fin 100) (Fin 50) initialState"
  let ?r = "\<lparr>rect_width = Fin 400, rect_height = Fin 400\<rparr>"
  have h: "isDragging ?s" "dragStart ?s = Some \<lparr>off_x = Fin 100, off_y = Fin 50\<rparr>"
    "panOffset ?s = \<lparr>off_x = Fin 0, off_y = Fin 0\<rparr>"
    by (simp_all add: handleMouseDown_def initialState_def)
  have sc: "js_div (js_div (width (viewBox ?s)) (zoom ?s)) (rect_width ?r) = Fin (1 / 4)"
    "js_div (js_div (height (viewBox ?s)) (zoom ?s)) (rect_height ?r) = Fin (1 / 4)"
    by (simp_all add: handleMouseDown_def initialState_def js_div_Fin round_double_quarter)
  have "drag_exact (of_int 100) (of_int 140) (of_int 128) (of_int 0 * 2 powi (- 2))
      (of_int 1 * 2 powi (- 2))"
    by (rule drag_exact_dyadic) simp_all
  then have ex: "drag_exact 100 140 128 0 (1 / 4)" by simp
  have "drag_exact (of_int 50) (of_int 58) (of_int 62) (of_int 0 * 2 powi (- 2))
      (of_int 1 * 2 powi (- 2))"
    by (rule drag_exact_dyadic) simp_all
  then have ey: "drag_exact 50 58 62 0 (1 / 4)" by simp
  from drag_moves_compose[OF h sc ex ey] show ?thesis by simp
qed

text \<open>The doubles of the example below.\<close>

lemma fiftieth_pos: "0 < fiftieth"
  by (simp add: fiftieth_def)

lemma round_double_fiftieth:
  "round_double (1 / 50) = Fin fiftieth"
  "round_double fiftieth = Fin fiftieth"
  "round_double (- fiftieth) = Fin (- fiftieth)"
  "round_double (5 * fiftieth) = Fin tenth"
  "round_double (6 * fiftieth) = Fin (1080863910568919 / 9007199254740992)"
  "round_double (- fiftieth - tenth) = Fin (- (8646911284551353 / 72057594037927936))"
  "round_double (- (1080863910568919 / 9007199254740992)) =
     Fin (- (1080863910568919 / 9007199254740992))"
proof -
  show "round_double (1 / 50) = Fin fiftieth"
    unfolding fiftieth_def
    by (rule round_double_eval(1)[of _ "- 6"]) (simp_all add: round_even_def)
  show "round_double fiftieth = Fin fiftieth"
    unfolding fiftieth_def
    by (rule round_double_exact[of _ 5764607523034235 "- 58"]) simp_all
  show "round_double (- fiftieth) = Fin (- fiftieth)"
    unfolding fiftieth_def
    by (rule round_double_exact[of _ "- 5764607523034235" "- 58"]) simp_all
  show "round_double (5 * fiftieth) = Fin tenth"
    unfolding fiftieth_def tenth_def
    by (rule round_double_eval(1)[of _ "- 4"]) (simp_all add: round_even_def)
  show "round_double (6 * fiftieth) = Fin (1080863910568919 / 9007199254740992)"
    unfolding fiftieth_def
    by (rule round_double_eval(1)[of _ "- 4"]) (simp_all add: round_even_def)
  have "round_double (- (fiftieth + tenth)) = Fin (- (8646911284551353 / 72057594037927936))"
    unfolding fiftieth_def tenth_def
    by (rule round_double_eval(2)[of _ "- 4"]) (simp_all add: round_even_def)
  moreover have "- (fiftieth + tenth) = - fiftieth - tenth" by simp
  ultimately show "round_double (- fiftieth - tenth) =
      Fin (- (8646911284551353 / 72057594037927936))"
    by (simp only:)
  show "round_double (- (1080863910568919 / 9007199254740992)) =
     Fin (- (1080863910568919 / 9007199254740992))"
    by (rule round_double_exact[of _ "- 1080863910568919" "- 53"]) simp_all
qed

lemma handleMouseMove_dragging:
  assumes "isDragging s" "dragStart s = Some start"
  shows "handleMouseMove (Some rect) cx cy s =
           s\<lparr>panOffset :=
               \<lparr>off_x = js_sub (off_x (panOffset s))
                          (js_mul (js_sub cx (off_x start))
                             (js_div (js_div (width (viewBox s)) (zoom s)) (rect_width rect))),
                off_y = js_sub (off_y (panOffset s))
                          (js_mul (js_sub cy (off_y start))
                             (js_div (js_div (height (viewBox s)) (zoom s)) (rect_height rect)))\<rparr>,
             dragStart := Some \<lparr>off_x = cx, off_y = cy\<rparr>\<rparr>"
  using assms by (simp add: handleMouseMove_def Let_def)

lemma load_empty_polygon:
  "handleInputChange example_JSON_parse (str ''[[]]'') initialState =
     initialState\<lparr>inputText := str ''[[]]'', polygons := [[]],
       viewBox := \<lparr>vb_minX = PInf, vb_minY = PInf, width = NInf, height = NInf\<rparr>\<rparr>"
  using tenth_pos
  by (simp add: handleInputChange_def Let_def trim_examples parse_empty_polygon
      updateViewBox_def calculateBounds_def js_sub_def js_mul_def round_double_tenth
      initialState_def)

text \<open>
  Without the condition the statement fails, in two ways.

  After the two-point text and one zoom-in the view box is 12 wide and the zoom 1.5;
  on a surface of 400 by 400 pixels the scale factor is the double of \<open>0.02\<close>. From a
  press at \<open>(100, 50)\<close>, a move by 1 pixel and then by 5 pixels gives the pan offset
  \<open>-0.12000000000000001\<close>, the double below \<open>-0.12\<close>, and the single move by 6
  pixels gives \<open>-0.12\<close>: the products and the difference are rounded differently.

  After the text \<^verbatim>\<open>[[]]\<close>, a polygon without points, the view box has the width and
  height \<open>-Infinity\<close>. From a press at \<open>(100, 50)\<close>, a move to \<open>(101, 51)\<close> and then
  to \<open>(99, 49)\<close> gives the pan offset NaN, the single move to \<open>(99, 49)\<close> gives
  \<open>-Infinity\<close>.
\<close>

theorem drag_moves_do_not_compose:
  "panOffset
     (handleMouseMove (Some \<lparr>rect_width = Fin 400, rect_height = Fin 400\<rparr>) (Fin 106) (Fin 50)
       (handleMouseMove (Some \<lparr>rect_width = Fin 400, rect_height = Fin 400\<rparr>) (Fin 101) (Fin 50)
         (handleMouseDown 0 (Fin 100) (Fin 50)
           (handleZoomIn (handleInputChange example_JSON_parse twoPointsText initialState))))) =
     \<lparr>off_x = Fin (- (8646911284551353 / 72057594037927936)), off_y = Fin 0\<rparr> \<and>
   panOffset
     (handleMouseMove (Some \<lparr>rect_width = Fin 400, rect_height = Fin 400\<rparr>) (Fin 106) (Fin 50)
       (handleMouseDown 0 (Fin 100) (Fin 50)
         (handleZoomIn (handleInputChange example_JSON_parse twoPointsText initialState)))) =
     \<lparr>off_x = Fin (- (1080863910568919 / 9007199254740992)), off_y = Fin 0\<rparr> \<and>
   handleMouseMove (Some \<lparr>rect_width = Fin 400, rect_height = Fin 400\<rparr>) (Fin 106) (Fin 50)
       (handleMouseMove (Some \<lparr>rect_width = Fin 400, rect_height = Fin 400\<rparr>) (Fin 101) (Fin 50)
         (handleMouseDown 0 (Fin 100) (Fin 50)
           (handleZoomIn (handleInputChange example_JSON_parse twoPointsText initialState)))) \<noteq>
     handleMouseMove (Some \<lparr>rect_width = Fin 400, rect_height = Fin 400\<rparr>) (Fin 106) (Fin 50)
       (handleMouseDown 0 (Fin 100) (Fin 50)
         (handleZoomIn (handleInputChange example_JSON_parse twoPointsText initialState))) \<and>
   panOffset
     (handleMouseMove (Some \<lparr>rect_width = Fin 400, rect_height = Fin 400\<rparr>) (Fin 99) (Fin 49)
       (handleMouseMove (Some \<lparr>rect_width = Fin 400, rect_height = Fin 400\<rparr>) (Fin 101) (Fin 51)
         (handleMouseDown 0 (Fin 100) (Fin 50)
           (handleInputChange example_JSON_parse (str ''[[]]'') initialState)))) =
     \<lparr>off_x = NaN, off_y = NaN\<rparr> \<and>
   panOffset
     (handleMouseMove (Some \<lparr>rect_width = Fin 400, rect_height = Fin 400\<rparr>) (Fin 99) (Fin 49)
       (handleMouseDown 0 (Fin 100) (Fin 50)
         (handleInputChange example_JSON_parse (str ''[[]]'') initialState))) =
     \<lparr>off_x = NInf, off_y = NInf\<rparr>"
proof -
  let ?r = "\<lparr>rect_width = Fin 400, rect_height = Fin 400\<rparr>"
  define s1 where "s1 = handleMouseDown 0 (Fin 100) (Fin 50)
      (handleZoomIn (handleInputChange example_JSON_parse twoPointsText initialState))"
  define s2 where "s2 = handleMouseDown 0 (Fin 100) (Fin 50)
      (handleInputChange example_JSON_parse (str ''[[]]'') initialState)"
  have f1: "isDragging s1" "dragStart s1 = Some \<lparr>off_x = Fin 100, off_y = Fin 50\<rparr>"
    "panOffset s1 = \<lparr>off_x = Fin 0, off_y = Fin 0\<rparr>"
    "width (viewBox s1) = Fin 12" "height (viewBox s1) = Fin 12" "zoom s1 = Fin (3 / 2)"
    unfolding s1_def load_two_points
    by (simp_all add: handleMouseDown_def handleZoomIn_def initialState_def js_mul_Fin
        round_double_three_halves)
  have f2: "isDragging s2" "dragStart s2 = Some \<lparr>off_x = Fin 100, off_y = Fin 50\<rparr>"
    "panOffset s2 = \<lparr>off_x = Fin 0, off_y = Fin 0\<rparr>"
    "width (viewBox s2) = NInf" "height (viewBox s2) = NInf" "zoom s2 = Fin 1"
    unfolding s2_def load_empty_polygon
    by (simp_all add: handleMouseDown_def initialState_def)
  have sc1: "js_div (js_div (Fin 12) (Fin (3 / 2))) (Fin 400) = Fin fiftieth"
    by (simp add: js_div_Fin round_double_fiftieth)
  have sc2: "js_div (js_div NInf (Fin 1)) (Fin 400) = NInf"
    by (simp add: js_div_def)
  have one1: "handleMouseMove (Some ?r) (Fin 101) (Fin 50) s1 =
      s1\<lparr>panOffset := \<lparr>off_x = Fin (- fiftieth), off_y = Fin 0\<rparr>,
         dragStart := Some \<lparr>off_x = Fin 101, off_y = Fin 50\<rparr>\<rparr>"
    using fiftieth_pos
    by (simp add: handleMouseMove_dragging[OF f1(1,2)] f1 sc1 js_sub_def js_mul_Fin
        round_double_fiftieth)
  have two1: "handleMouseMove (Some ?r) (Fin 106) (Fin 50)
        (s1\<lparr>panOffset := \<lparr>off_x = Fin (- fiftieth), off_y = Fin 0\<rparr>,
            dragStart := Some \<lparr>off_x = Fin 101, off_y = Fin 50\<rparr>\<rparr>) =
      s1\<lparr>panOffset := \<lparr>off_x = Fin (- (8646911284551353 / 72057594037927936)), off_y = Fin 0\<rparr>,
         dragStart := Some \<lparr>off_x = Fin 106, off_y = Fin 50\<rparr>\<rparr>"
    using fiftieth_pos tenth_pos
    by (simp add: handleMouseMove_def Let_def f1 sc1 js_sub_def js_mul_Fin
        round_double_fiftieth)
  have whole1: "handleMouseMove (Some ?r) (Fin 106) (Fin 50) s1 =
      s1\<lparr>panOffset := \<lparr>off_x = Fin (- (1080863910568919 / 9007199254740992)), off_y = Fin 0\<rparr>,
         dragStart := Some \<lparr>off_x = Fin 106, off_y = Fin 50\<rparr>\<rparr>"
    using fiftieth_pos
    by (simp add: handleMouseMove_dragging[OF f1(1,2)] f1 sc1 js_sub_def js_mul_Fin
        round_double_fiftieth)
  have one2: "handleMouseMove (Some ?r) (Fin 101) (Fin 51) s2 =
      s2\<lparr>panOffset := \<lparr>off_x = PInf, off_y = PInf\<rparr>,
         dragStart := Some \<lparr>off_x = Fin 101, off_y = Fin 51\<rparr>\<rparr>"
    by (simp add: handleMouseMove_dragging[OF f2(1,2)] f2 sc2 js_sub_def js_mul_def)
  have two2: "handleMouseMove (Some ?r) (Fin 99) (Fin 49)
        (s2\<lparr>panOffset := \<lparr>off_x = PInf, off_y = PInf\<rparr>,
            dragStart := Some \<lparr>off_x = Fin 101, off_y = Fin 51\<rparr>\<rparr>) =
      s2\<lparr>panOffset := \<lparr>off_x = NaN, off_y = NaN\<rparr>,
         dragStart := Some \<lparr>off_x = Fin 99, off_y = Fin 49\<rparr>\<rparr>"
    by (simp add: handleMouseMove_def Let_def f2 sc2 js_sub_def js_mul_def)
  have whole2: "handleMouseMove (Some ?r) (Fin 99) (Fin 49) s2 =
      s2\<lparr>panOffset := \<lparr>off_x = NInf, off_y = NInf\<rparr>,
         dragStart := Some \<lparr>off_x = Fin 99, off_y = Fin 49\<rparr>\<rparr>"
    by (simp add: handleMouseMove_dragging[OF f2(1,2)] f2 sc2 js_sub_def js_mul_def)
  have ne: "s1\<lparr>panOffset := \<lparr>off_x = Fin (- (8646911284551353 / 72057594037927936)),
                off_y = Fin 0\<rparr>,
         dragStart := Some \<lparr>off_x = Fin 106, off_y = Fin 50\<rparr>\<rparr> \<noteq>
      s1\<lparr>panOffset := \<lparr>off_x = Fin (- (1080863910568919 / 9007199254740992)), off_y = Fin 0\<rparr>,
         dragStart := Some \<lparr>off_x = Fin 106, off_y = Fin 50\<rparr>\<rparr>"
  proof
    assume "s1\<lparr>panOffset := \<lparr>off_x = Fin (- (8646911284551353 / 72057594037927936)),
                off_y = Fin 0\<rparr>,
         dragStart := Some \<lparr>off_x = Fin 106, off_y = Fin 50\<rparr>\<rparr> =
      s1\<lparr>panOffset := \<lparr>off_x = Fin (- (1080863910568919 / 9007199254740992)), off_y = Fin 0\<rparr>,
         dragStart := Some \<lparr>off_x = Fin 106, off_y = Fin 50\<rparr>\<rparr>"
    then have "panOffset (s1\<lparr>panOffset := \<lparr>off_x = Fin (- (8646911284551353 / 72057594037927936)),
                off_y = Fin 0\<rparr>,
         dragStart := Some \<lparr>off_x = Fin 106, off_y = Fin 50\<rparr>\<rparr>) =
      panOffset (s1\<lparr>panOffset := \<lparr>off_x = Fin (- (1080863910568919 / 9007199254740992)),
                off_y = Fin 0\<rparr>,
         dragStart := Some \<lparr>off_x = Fin 106, off_y = Fin 50\<rparr>\<rparr>)"
      by (rule arg_cong)
    then show False by simp
  qed
  show ?thesis
    unfolding s1_def[symmetric] s2_def[symmetric] one1 two1 whole1 one2 two2 whole2
    using ne by simp
qed

section \<open>The coordinate fields\<close>

text \<open>
  What the guard of \<^verbatim>\<open>handleCoordinateChange\<close> decides: the custom point exists
  exactly when both strings are non-blank and \<^verbatim>\<open>parseFloat\<close> of neither is NaN; it
  then holds the two parsed numbers, and otherwise it is cleared entirely.
\<close>

lemma handleCoordinateChange_customPoint:
  "(customPoint (handleCoordinateChange x z s) \<noteq> None) =
     (trim x \<noteq> [] \<and> trim z \<noteq> [] \<and> \<not> isNaN (parseFloat x) \<and> \<not> isNaN (parseFloat z)) \<and>
   (case customPoint (handleCoordinateChange x z s) of
      None \<Rightarrow> True
    | Some p \<Rightarrow> point_x p = parseFloat x \<and> point_z p = parseFloat z \<and>
                \<not> isNaN (point_x p) \<and> \<not> isNaN (point_z p))"
  by (simp add: handleCoordinateChange_def updateViewBox_def Let_def)





section \<open>Parsing\<close>


lemma validatePoint_valid: "valid_point v \<longleftrightarrow> (\<exists>p. validatePoint i j v = Inr p)"
  by (auto simp: valid_point_def validatePoint_def is_number_def
      split: sum.splits option.splits jsval.splits)

lemma hasOwnProperty_throws:
  "hasOwnProperty v k = Inl e \<Longrightarrow> hasOwnProperty v k' = Inl e"
  by (cases v) (auto split: option.splits)

lemma validatePoint_lacks_field:
  assumes "lacks_field v"
  shows "validatePoint i j v = Inl (Error (missing_msg i j))"
proof (cases "hasOwnProperty v (str ''x'')")
  case (Inl e)
  from hasOwnProperty_throws[OF this, of "str ''z''"] Inl assms show ?thesis
    by (simp add: lacks_field_def)
next
  case (Inr hx)
  with assms show ?thesis
    by (auto simp: lacks_field_def validatePoint_def)
qed

lemma validatePoint_non_numeric:
  assumes "non_numeric_field v"
  shows "validatePoint i j v = Inl (Error (numeric_msg i j))"
  using assms
  by (auto simp: non_numeric_field_def validatePoint_def is_number_def
      split: option.splits jsval.splits)

lemma validatePoint_throws:
  assumes "hasOwnProperty v (str ''x'') = Inl e"
  shows "validatePoint i j v = Inl e"
  using assms by (simp add: validatePoint_def)

text \<open>The loops stop at the first element that fails, and pass when none does.\<close>

lemma validatePoints_first_failure:
  assumes "list_all valid_point good" "validatePoint i (j + length good) v = Inl e"
  shows "validatePoints i j (good @ v # rest) = Inl e"
  using assms
proof (induction good arbitrary: j)
  case Nil
  then show ?case by simp
next
  case (Cons a good)
  from Cons.prems(1) obtain p where "validatePoint i j a = Inr p"
    using validatePoint_valid[of a i j] by auto
  moreover from Cons.prems have "validatePoints i (Suc j) (good @ v # rest) = Inl e"
    by (intro Cons.IH) simp_all
  ultimately show ?case by simp
qed

lemma validatePoints_valid:
  "list_all valid_point vs \<longleftrightarrow> (\<exists>ps. validatePoints i j vs = Inr ps)"
proof (induction vs arbitrary: j)
  case Nil
  then show ?case by simp
next
  case (Cons a vs)
  show ?case
    using Cons.IH[of "Suc j"] validatePoint_valid[of a i j]
    by (auto split: sum.splits)
qed

lemma validatePolygons_valid:
  "list_all valid_polygon vs \<longleftrightarrow> (\<exists>pss. validatePolygons i vs = Inr pss)"
proof (induction vs arbitrary: i)
  case Nil
  then show ?case by simp
next
  case (Cons a vs)
  show ?case
    using Cons.IH[of "Suc i"] validatePoints_valid[of _ i 0]
    by (cases a) (auto simp: valid_polygon_def split: sum.splits)
qed

lemma validatePolygons_first_failure:
  assumes "list_all valid_polygon good" "validatePolygons (i + length good) rest = Inl e"
  shows "validatePolygons i (good @ rest) = Inl e"
  using assms
proof (induction good arbitrary: i)
  case Nil
  then show ?case by simp
next
  case (Cons a good)
  from Cons.prems(1) obtain pts ps where a: "a = JArr pts" "validatePoints i 0 pts = Inr ps"
    using validatePoints_valid[of _ i 0]
    by (cases a) (auto simp: valid_polygon_def)
  from Cons.prems have "validatePolygons (Suc i) (good @ rest) = Inl e"
    by (intro Cons.IH) simp_all
  with a show ?case by simp
qed

lemma validatePolygons_not_array:
  assumes "list_all valid_polygon good" "\<not> is_array v"
  shows "validatePolygons 0 (good @ v # rest) =
           Inl (Error (str ''Polygon '' @ show_nat (length good) @ str '' must be an array''))"
proof -
  from assms(2) have "validatePolygons (0 + length good) (v # rest) =
      Inl (Error (str ''Polygon '' @ show_nat (length good) @ str '' must be an array''))"
    by (cases v) (simp_all add: is_array_def)
  with assms(1) show ?thesis by (rule validatePolygons_first_failure)
qed

lemma validatePolygons_bad_point:
  assumes "list_all valid_polygon good" "list_all valid_point gpts"
    and "validatePoint (length good) (length gpts) v = Inl e"
  shows "validatePolygons 0 (good @ JArr (gpts @ v # rest') # rest) = Inl e"
proof -
  from assms(2,3) have "validatePoints (length good) 0 (gpts @ v # rest') = Inl e"
    by (intro validatePoints_first_failure) simp_all
  then have "validatePolygons (0 + length good) (JArr (gpts @ v # rest') # rest) = Inl e"
    by simp
  with assms(1) show ?thesis by (rule validatePolygons_first_failure)
qed






text \<open>
  Where the view box is kept fitted: after an empty text, after a successful parse, and
  after a change of the coordinate fields.
\<close>

lemma viewBox_fitted_after_input:
  assumes "trim text = [] \<or> (\<exists>ps. parsePolygons JSON_parse text = Inr ps)"
  shows "viewBox (handleInputChange JSON_parse text s) =
           viewBox (updateViewBox (polygons (handleInputChange JSON_parse text s))
                      (customPoint (handleInputChange JSON_parse text s))
                      (handleInputChange JSON_parse text s))"
  using assms by (auto simp: handleInputChange_def updateViewBox_def Let_def)

lemma viewBox_fitted_after_coordinates:
  "viewBox (handleCoordinateChange x z s) =
     viewBox (updateViewBox (polygons (handleCoordinateChange x z s))
                (customPoint (handleCoordinateChange x z s))
                (handleCoordinateChange x z s))"
  by (simp add: handleCoordinateChange_def updateViewBox_def Let_def)

text \<open>
  C10. Each kind of failure makes \<^verbatim>\<open>parsePolygons\<close> fail with a plain \<^verbatim>\<open>Error\<close>
  whose message is \<^verbatim>\<open>Invalid JSON format: \<close> followed by the message of what was
  thrown inside:
  \<^item> a SyntaxError of \<^verbatim>\<open>JSON.parse\<close>, with its message \<open>m\<close>;
  \<^item> a parsed value \<open>v\<close> that is no array, with \<^verbatim>\<open>Input must be an array\<close>;
  \<^item> a polygon \<open>poly\<close> that is no array, after valid polygons \<open>good\<close>, with
    \<^verbatim>\<open>Polygon i must be an array\<close>, \<open>i\<close> its index;
  \<^item> a point \<open>pm\<close> that lacks \<^verbatim>\<open>x\<close> or \<^verbatim>\<open>z\<close>, after valid points \<open>gm\<close> in a polygon
    after valid polygons \<open>goodm\<close>, with the message of the missing fields for its
    indices;
  \<^item> a point \<open>pn\<close> that owns both, one of them not a number, in the same position,
    with the message of the non-numeric values;
  \<^item> a point \<open>pt\<close> on which \<^verbatim>\<open>hasOwnProperty\<close> throws a TypeError \<open>e\<close>, with the
    message of \<open>e\<close>.

  Whenever some polygon of the parsed array is not valid, wherever it stands,
  \<^verbatim>\<open>parsePolygons\<close> fails; and every failure whatsoever is an \<^verbatim>\<open>Error\<close> with the
  prefix, so the class of the original error is lost and only the message text tells
  the kinds apart.
\<close>

theorem parsePolygons_failure_prefix:
  "(JSON_parse text = Inl m \<longrightarrow>
      parsePolygons JSON_parse text = Inl (Error (format_prefix @ m))) \<and>
   (JSON_parse text = Inr v \<and> \<not> is_array v \<longrightarrow>
      parsePolygons JSON_parse text =
        Inl (Error (format_prefix @ str ''Input must be an array''))) \<and>
   (JSON_parse text = Inr (JArr (good @ poly # rest)) \<and> list_all valid_polygon good \<and>
    \<not> is_array poly \<longrightarrow>
      parsePolygons JSON_parse text =
        Inl (Error (format_prefix @ str ''Polygon '' @ show_nat (length good) @
                    str '' must be an array''))) \<and>
   (JSON_parse text = Inr (JArr (goodm @ JArr (gm @ pm # restm') # restm)) \<and>
    list_all valid_polygon goodm \<and> list_all valid_point gm \<and> lacks_field pm \<longrightarrow>
      parsePolygons JSON_parse text =
        Inl (Error (format_prefix @ missing_msg (length goodm) (length gm)))) \<and>
   (JSON_parse text = Inr (JArr (goodn @ JArr (gn @ pn # restn') # restn)) \<and>
    list_all valid_polygon goodn \<and> list_all valid_point gn \<and> non_numeric_field pn \<longrightarrow>
      parsePolygons JSON_parse text =
        Inl (Error (format_prefix @ numeric_msg (length goodn) (length gn)))) \<and>
   (JSON_parse text = Inr (JArr (goodt @ JArr (gt @ pt # restt') # restt)) \<and>
    list_all valid_polygon goodt \<and> list_all valid_point gt \<and>
    hasOwnProperty pt (str ''x'') = Inl e \<longrightarrow>
      parsePolygons JSON_parse text = Inl (Error (format_prefix @ message e))) \<and>
   (JSON_parse text = Inr (JArr polys) \<and> \<not> list_all valid_polygon polys \<longrightarrow>
      (\<exists>m'. parsePolygons JSON_parse text = Inl (Error (format_prefix @ m')))) \<and>
   (parsePolygons JSON_parse text = Inl err \<longrightarrow> (\<exists>m'. err = Error (format_prefix @ m')))"
proof (intro conjI impI; (elim conjE)?)
  assume "JSON_parse text = Inl m"
  then show "parsePolygons JSON_parse text = Inl (Error (format_prefix @ m))"
    by (simp add: parsePolygons_def parsePolygons_try_def format_prefix_def)
next
  assume "JSON_parse text = Inr v" "\<not> is_array v"
  then show "parsePolygons JSON_parse text =
      Inl (Error (format_prefix @ str ''Input must be an array''))"
    by (cases v) (simp_all add: parsePolygons_def parsePolygons_try_def format_prefix_def
        is_array_def)
next
  assume "JSON_parse text = Inr (JArr (good @ poly # rest))" "list_all valid_polygon good"
    "\<not> is_array poly"
  then show "parsePolygons JSON_parse text =
      Inl (Error (format_prefix @ str ''Polygon '' @ show_nat (length good) @
                  str '' must be an array''))"
    by (simp add: parsePolygons_def parsePolygons_try_def format_prefix_def
        validatePolygons_not_array)
next
  assume "JSON_parse text = Inr (JArr (goodm @ JArr (gm @ pm # restm') # restm))"
    "list_all valid_polygon goodm" "list_all valid_point gm" "lacks_field pm"
  then show "parsePolygons JSON_parse text =
      Inl (Error (format_prefix @ missing_msg (length goodm) (length gm)))"
    by (simp add: parsePolygons_def parsePolygons_try_def format_prefix_def
        validatePolygons_bad_point[OF _ _ validatePoint_lacks_field])
next
  assume "JSON_parse text = Inr (JArr (goodn @ JArr (gn @ pn # restn') # restn))"
    "list_all valid_polygon goodn" "list_all valid_point gn" "non_numeric_field pn"
  then show "parsePolygons JSON_parse text =
      Inl (Error (format_prefix @ numeric_msg (length goodn) (length gn)))"
    by (simp add: parsePolygons_def parsePolygons_try_def format_prefix_def
        validatePolygons_bad_point[OF _ _ validatePoint_non_numeric])
next
  assume "JSON_parse text = Inr (JArr (goodt @ JArr (gt @ pt # restt') # restt))"
    "list_all valid_polygon goodt" "list_all valid_point gt"
    "hasOwnProperty pt (str ''x'') = Inl e"
  then show "parsePolygons JSON_parse text = Inl (Error (format_prefix @ message e))"
    by (simp add: parsePolygons_def parsePolygons_try_def format_prefix_def
        validatePolygons_bad_point[OF _ _ validatePoint_throws])
next
  assume "JSON_parse text = Inr (JArr polys)" "\<not> list_all valid_polygon polys"
  then show "\<exists>m'. parsePolygons JSON_parse text = Inl (Error (format_prefix @ m'))"
    using validatePolygons_valid[of polys 0]
    by (auto simp: parsePolygons_def parsePolygons_try_def format_prefix_def split: sum.splits)
next
  assume "parsePolygons JSON_parse text = Inl err"
  then show "\<exists>m'. err = Error (format_prefix @ m')"
    by (auto simp: parsePolygons_def format_prefix_def split: sum.splits)
qed

text \<open>
  The text \<^verbatim>\<open>not json\<close>, a syntax error, and the text \<^verbatim>\<open>[[1]]\<close>, whose point is
  the number 1 and lacks the fields.
\<close>

theorem parsePolygons_failure_prefix_witness:
  "parsePolygons example_JSON_parse (str ''not json'') =
     Inl (Error (str ''Invalid JSON format: Unexpected token o in JSON at position 1'')) \<and>
   parsePolygons example_JSON_parse (str ''[[1]]'') =
     Inl (Error (str ''Invalid JSON format: Point 0 in polygon 0 must have x and z properties''))"
proof -
  have a: "example_JSON_parse (str ''not json'') =
      Inl (str ''Unexpected token o in JSON at position 1'')"
    by (simp add: example_JSON_parse_def twoPointsText_def overflowText_def bigPointText_def
        str_def)
  have b: "example_JSON_parse (str ''[[1]]'') =
      Inr (JArr ([] @ JArr ([] @ JNum (Fin 1) # []) # []))"
    by (simp add: example_JSON_parse_def twoPointsText_def overflowText_def bigPointText_def
        str_def)
  have c: "lacks_field (JNum (Fin 1))" by (simp add: lacks_field_def)
  from parsePolygons_failure_prefix[THEN conjunct1, rule_format, of example_JSON_parse
      "str ''not json''" "str ''Unexpected token o in JSON at position 1''", OF a]
  have "parsePolygons example_JSON_parse (str ''not json'') =
      Inl (Error (format_prefix @ str ''Unexpected token o in JSON at position 1''))" .
  moreover
  from parsePolygons_failure_prefix[THEN conjunct2, THEN conjunct2, THEN conjunct2,
      THEN conjunct1, rule_format, of example_JSON_parse "str ''[[1]]''" "[]" "[]"
      "JNum (Fin 1)" "[]" "[]"] b c
  have "parsePolygons example_JSON_parse (str ''[[1]]'') =
      Inl (Error (format_prefix @ missing_msg 0 0))"
    by simp
  ultimately show ?thesis
    by (simp add: format_prefix_def missing_msg_def show_nat.simps str_def)
qed

text \<open>
  C2, as the code has it. For a text that is not blank and on which \<^verbatim>\<open>parsePolygons\<close>
  fails, \<^verbatim>\<open>handleInputChange\<close> produces no partial polygon set: it stores the text and
  the error message and clears the polygon set to empty. Nothing else of the state
  changes.
\<close>

theorem handleInputChange_failure:
  assumes "trim text \<noteq> []" "parsePolygons JSON_parse text = Inl err"
  shows "handleInputChange JSON_parse text s =
           s\<lparr>inputText := text, error := message err, polygons := []\<rparr>"
  using assms by (simp add: handleInputChange_def Let_def)

text \<open>The text \<^verbatim>\<open>[[1]]\<close> in the initial state.\<close>

theorem handleInputChange_failure_witness:
  "handleInputChange example_JSON_parse (str ''[[1]]'') initialState =
     initialState\<lparr>inputText := str ''[[1]]'',
       error := str ''Invalid JSON format: Point 0 in polygon 0 must have x and z properties'',
       polygons := []\<rparr>"
  using handleInputChange_failure[OF trim_examples(2) parse_number_as_point, of initialState]
  by simp

text \<open>
  The previous polygon set is not retained: after the two-point text has been loaded,
  the text \<^verbatim>\<open>not json\<close> leaves an empty polygon set, not the one held before.
\<close>

theorem parse_failure_clears_polygons:
  "polygons (handleInputChange example_JSON_parse twoPointsText initialState) =
     [[\<lparr>point_x = Fin 0, point_z = Fin 0\<rparr>, \<lparr>point_x = Fin 10, point_z = Fin 10\<rparr>]] \<and>
   polygons (handleInputChange example_JSON_parse (str ''not json'')
     (handleInputChange example_JSON_parse twoPointsText initialState)) = [] \<and>
   error (handleInputChange example_JSON_parse (str ''not json'')
     (handleInputChange example_JSON_parse twoPointsText initialState)) =
     str ''Invalid JSON format: Unexpected token o in JSON at position 1''"
  by (simp add: fail_after_two_points) (simp add: load_two_points)

text \<open>
  C3. The stored view box should be the one \<^verbatim>\<open>updateViewBox\<close> computes from the
  current polygon set and custom point after every replacement of either. On a parse
  failure it is not: after the two-point text has been loaded and then the text
  \<^verbatim>\<open>not json\<close>, the polygon set is empty and there is no custom point, the view box
  is still the one fitted to the two points, and \<^verbatim>\<open>updateViewBox\<close> would give the
  default one.
\<close>

theorem viewBox_stale_after_parse_failure:
  "polygons (handleInputChange example_JSON_parse (str ''not json'')
     (handleInputChange example_JSON_parse twoPointsText initialState)) = [] \<and>
   customPoint (handleInputChange example_JSON_parse (str ''not json'')
     (handleInputChange example_JSON_parse twoPointsText initialState)) = None \<and>
   viewBox (handleInputChange example_JSON_parse (str ''not json'')
     (handleInputChange example_JSON_parse twoPointsText initialState)) =
     \<lparr>vb_minX = Fin (- 1), vb_minY = Fin (- 1), width = Fin 12, height = Fin 12\<rparr> \<and>
   viewBox (updateViewBox [] None (handleInputChange example_JSON_parse (str ''not json'')
     (handleInputChange example_JSON_parse twoPointsText initialState))) =
     \<lparr>vb_minX = Fin 0, vb_minY = Fin 0, width = Fin 100, height = Fin 100\<rparr>"
  by (simp add: fail_after_two_points)
     (simp add: initialState_def updateViewBox_def calculateBounds_def js_sub_def)



text \<open>
  The validation itself looks at the type of \<^verbatim>\<open>x\<close> and \<^verbatim>\<open>z\<close> only, and
  \<^verbatim>\<open>typeof NaN\<close> is \<^verbatim>\<open>number\<close>: were a NaN in the value, it would pass.
\<close>

lemma validation_accepts_NaN:
  "validatePoint 0 0 (JObj [(str ''x'', JNum NaN), (str ''z'', JNum (Fin 0))]) =
     Inr \<lparr>point_x = NaN, point_z = Fin 0\<rparr>"
  by (simp add: validatePoint_def str_def)

end
